theory Spec2Isabelle
  imports Complex_Main
begin

section \<open>Errors (pkg/errors, internal/domain/errors.go, database/sql)\<close>

text \<open>
  Go error values. The sentinels of \<^verbatim>\<open>pkg/errors\<close> are constructors, an
  \<^verbatim>\<open>*AppError\<close> is \<open>AppError Err Message StatusCode\<close>. \<open>sql_ErrNoRows\<close> is
  \<^verbatim>\<open>sql.ErrNoRows\<close>; \<open>sql_driver_error\<close> stands for every other error that
  \<^verbatim>\<open>database/sql\<close> or the driver reports for a statement.
\<close>

datatype error =
    ErrNotFound
  | ErrInvalidInput
  | ErrUnauthorized
  | ErrForbidden
  | ErrConflict
  | ErrInternal
  | sql_ErrNoRows
  | sql_driver_error
  | AppError error string nat
  | domain_ErrNotFound
  | domain_ErrInternalServer
  | domain_NotFoundError string int

text \<open>
  \<^verbatim>\<open>fmt.Sprintf("%d", n)\<close> for a signed integer: the decimal digits, with a
  leading minus sign for a negative number.
\<close>

fun decimal :: "nat \<Rightarrow> string" where
  "decimal n =
     (if n < 10 then [''0123456789'' ! n]
      else decimal (n div 10) @ [''0123456789'' ! (n mod 10)])"

declare decimal.simps [simp del]

definition Sprintf_d :: "int \<Rightarrow> string" where
  "Sprintf_d n = (if n < 0 then CHR ''-'' # decimal (nat (- n)) else decimal (nat n))"

definition NewNotFoundError :: "string \<Rightarrow> int \<Rightarrow> error" where
  "NewNotFoundError entity ident =
     AppError ErrNotFound (entity @ '' with ID '' @ Sprintf_d ident @ '' not found'') 404"

definition NewInternalError :: "error \<Rightarrow> error" where
  "NewInternalError e = AppError e ''internal server error'' 500"

definition NewBadRequestError :: "string \<Rightarrow> error" where
  "NewBadRequestError message = AppError ErrInvalidInput message 400"

text \<open>
  \<^verbatim>\<open>errors.Is(err, target)\<close> for a sentinel target: an \<^verbatim>\<open>*AppError\<close> is
  unwrapped to its \<^verbatim>\<open>Err\<close>, a \<^verbatim>\<open>*domain.NotFoundError\<close> answers through its own
  \<^verbatim>\<open>Is\<close> method, any other value is compared with the target.
\<close>

fun errors_Is :: "error \<Rightarrow> error \<Rightarrow> bool" where
  "errors_Is (AppError e m c) target = errors_Is e target"
| "errors_Is (domain_NotFoundError entity ident) target = (target = domain_ErrNotFound)"
| "errors_Is e target = (e = target)"

fun GetStatusCode :: "error \<Rightarrow> nat" where
  "GetStatusCode (AppError e m c) = c"
| "GetStatusCode e =
     (if errors_Is e ErrNotFound then 404
      else if errors_Is e ErrInvalidInput then 400
      else if errors_Is e ErrUnauthorized then 401
      else if errors_Is e ErrForbidden then 403
      else if errors_Is e ErrConflict then 409
      else 500)"

section \<open>Entities (internal/domain)\<close>

text \<open>
  Identifiers, quantities and stock counts are Go \<^verbatim>\<open>int64\<close>/\<^verbatim>\<open>int\<close> values on
  which the Go code only compares; all arithmetic on them is done by SQL, where leaving
  the column range is an error of the statement and not a wrap-around. They are
  modelled as \<open>int\<close>. Amounts (\<^verbatim>\<open>float64\<close> in Go, \<^verbatim>\<open>DECIMAL(10, 2)\<close> in the
  schema) are modelled as exact \<open>real\<close> numbers: rounding is outside the model.
  Timestamps are Unix seconds.
\<close>

record user =
  user_ID :: int
  user_Username :: string
  user_Email :: string
  user_Password :: string
  user_Role :: string
  user_CreatedAt :: int
  user_UpdatedAt :: int

text \<open>
  A product. The \<^verbatim>\<open>Category\<close> snapshot and the \<^verbatim>\<open>Images\<close> list of the Go struct
  play no part in the order workflow and are left out.
\<close>

record product =
  p_ID :: int
  p_Name :: string
  p_Description :: string
  p_Price :: real
  p_SKU :: string
  p_Stock :: int
  p_CategoryID :: int
  p_CreatedAt :: int
  p_UpdatedAt :: int

record order_item =
  oi_ID :: int
  oi_OrderID :: int
  oi_ProductID :: int
  oi_Product :: product
  oi_Quantity :: int
  oi_Price :: real
  oi_CreatedAt :: int
  oi_UpdatedAt :: int

record shipping_info =
  si_ID :: int
  si_OrderID :: int
  si_Address :: string
  si_City :: string
  si_State :: string
  si_Country :: string
  si_PostalCode :: string
  si_PhoneNumber :: string
  si_CreatedAt :: int
  si_UpdatedAt :: int

record order =
  o_ID :: int
  o_UserID :: int
  o_User :: user
  o_Status :: string
  o_TotalAmount :: real
  o_Items :: "order_item list"
  o_PaymentMethod :: string
  o_ShippingInfo :: shipping_info
  o_CreatedAt :: int
  o_UpdatedAt :: int

record order_item_create_dto =
  dto_ProductID :: int
  dto_Quantity :: int
  dto_Price :: real

record shipping_info_dto =
  sd_Address :: string
  sd_City :: string
  sd_State :: string
  sd_Country :: string
  sd_PostalCode :: string
  sd_PhoneNumber :: string

record order_create_dto =
  cd_UserID :: int
  cd_Items :: "order_item_create_dto list"
  cd_PaymentMethod :: string
  cd_ShippingInfo :: shipping_info_dto

definition OrderStatusPending :: string where
  "OrderStatusPending = ''pending''"

text \<open>The zero values of the Go structs (\<^verbatim>\<open>var x T\<close>).\<close>

definition zero_user :: user where
  "zero_user = \<lparr>user_ID = 0, user_Username = [], user_Email = [], user_Password = [],
     user_Role = [], user_CreatedAt = 0, user_UpdatedAt = 0\<rparr>"

definition zero_product :: product where
  "zero_product = \<lparr>p_ID = 0, p_Name = [], p_Description = [], p_Price = 0, p_SKU = [],
     p_Stock = 0, p_CategoryID = 0, p_CreatedAt = 0, p_UpdatedAt = 0\<rparr>"

definition zero_shipping_info :: shipping_info where
  "zero_shipping_info = \<lparr>si_ID = 0, si_OrderID = 0, si_Address = [], si_City = [],
     si_State = [], si_Country = [], si_PostalCode = [], si_PhoneNumber = [],
     si_CreatedAt = 0, si_UpdatedAt = 0\<rparr>"

section \<open>The relational store\<close>

text \<open>Rows of the tables \<^verbatim>\<open>orders\<close> and \<^verbatim>\<open>order_items\<close>; a row of
  \<^verbatim>\<open>shipping_info\<close> has the columns of the Go struct, a row of \<^verbatim>\<open>products\<close> and
  \<^verbatim>\<open>users\<close> those of the records above.\<close>

record order_row =
  or_id :: int
  or_user_id :: int
  or_status :: string
  or_total_amount :: real
  or_payment_method :: string
  or_created_at :: int
  or_updated_at :: int

record item_row =
  ir_id :: int
  ir_order_id :: int
  ir_product_id :: int
  ir_quantity :: int
  ir_price :: real
  ir_created_at :: int
  ir_updated_at :: int

text \<open>
  The database: \<^verbatim>\<open>users\<close> and \<^verbatim>\<open>products\<close> are keyed by their primary key,
  the three tables of the order store are row lists in insertion order, and the three
  counters are the \<^verbatim>\<open>SERIAL\<close> generators behind \<^verbatim>\<open>RETURNING id\<close>.
\<close>

record db =
  users :: "int \<rightharpoonup> user"
  products :: "int \<rightharpoonup> product"
  orders :: "order_row list"
  order_items :: "item_row list"
  shipping_infos :: "shipping_info list"
  next_order_id :: int
  next_item_id :: int
  next_shipping_id :: int

text \<open>
  The statements the code sends to the database, by the place that sends them. A fault
  oracle says which of them the database fails with a database-level error (lost
  connection, cancelled context, value out of the column range, scan failure, ...).
  \<open>At i s\<close> is the statement \<open>s\<close> sent for the line item at position \<open>i\<close> of a
  loop, \<open>Again s\<close> the statement \<open>s\<close> sent by a second call of the same repository
  function within one use case.
\<close>

datatype stmt =
    SelectUser
  | SelectProduct
  | BeginTx
  | Commit
  | InsertOrder
  | InsertItem
  | DecrementStock
  | InsertShipping
  | DeleteShipping
  | DeleteItems
  | DeleteOrder
  | RowsAffected
  | SelectOrderExists
  | SelectStock
  | InsertOrderItem
  | UpdateProductStock
  | UpdateOrderTotal
  | UpdateStockReturning
  | RevertStock
  | SelectOrder
  | SelectItems
  | SelectShipping
  | At nat stmt
  | Again stmt

type_synonym faults = "stmt \<Rightarrow> bool"

definition no_faults :: faults where
  "no_faults = (\<lambda>s. False)"

text \<open>
  How a call left its transaction. \<open>TxRolledBack w\<close>: \<^verbatim>\<open>tx.Rollback()\<close> was called
  (or the commit failed) and the writes that made the working state \<open>w\<close> were
  discarded. \<open>TxLeftOpen w\<close>: the function returned without calling
  \<^verbatim>\<open>tx.Commit()\<close> or \<^verbatim>\<open>tx.Rollback()\<close>; the writes of \<open>w\<close> are uncommitted and
  the transaction still holds its connection and row locks.
\<close>

datatype tx_status =
    TxNotStarted
  | TxCommitted
  | TxRolledBack db
  | TxLeftOpen db

text \<open>
  The outcome of a call: the committed database after it, what became of its
  transaction, and the returned error or value.
\<close>

record 'a outcome =
  store :: db
  tx :: tx_status
  returned :: "error + 'a"

text \<open>
  The exit of a function body that runs under
  \<^verbatim>\<open>defer func() { if err != nil { tx.Rollback() } }()\<close>: the value of the local
  variable \<^verbatim>\<open>err\<close> at the return statement, the value the statement returns, the
  working state of the transaction, and whether \<^verbatim>\<open>tx.Commit()\<close> succeeded.
\<close>

record 'a body_exit =
  err_var :: "error option"
  ret :: "error + 'a"
  work :: db
  commit_ok :: bool

definition deferred_rollback :: "db \<Rightarrow> 'a body_exit \<Rightarrow> 'a outcome" where
  "deferred_rollback db0 x =
     (if commit_ok x then \<lparr>store = work x, tx = TxCommitted, returned = ret x\<rparr>
      else if err_var x \<noteq> None then \<lparr>store = db0, tx = TxRolledBack (work x), returned = ret x\<rparr>
      else \<lparr>store = db0, tx = TxLeftOpen (work x), returned = ret x\<rparr>)"

text \<open>A return statement that hands back a database error wrapped as Internal.\<close>

definition return_internal :: "error \<Rightarrow> db \<Rightarrow> 'a body_exit" where
  "return_internal e w =
     \<lparr>err_var = Some e, ret = Inl (NewInternalError e), work = w, commit_ok = False\<rparr>"

text \<open>A return statement that builds a fresh error while \<^verbatim>\<open>err\<close> is nil.\<close>

definition return_fresh :: "error \<Rightarrow> db \<Rightarrow> 'a body_exit" where
  "return_fresh e w = \<lparr>err_var = None, ret = Inl e, work = w, commit_ok = False\<rparr>"

section \<open>Repositories (internal/repository/postgres)\<close>

text \<open>\<^verbatim>\<open>UPDATE products SET ... WHERE id = $n\<close>: the row with that key, if any.\<close>

definition update_product :: "int \<Rightarrow> (product \<Rightarrow> product) \<Rightarrow> db \<Rightarrow> db" where
  "update_product ident g d =
     (case products d ident of
        None \<Rightarrow> d
      | Some p \<Rightarrow> d\<lparr>products := (products d)(ident \<mapsto> g p)\<rparr>)"

definition userRepository_GetByID :: "faults \<Rightarrow> db \<Rightarrow> int \<Rightarrow> error + user" where
  "userRepository_GetByID f d ident =
     (if f SelectUser then Inl domain_ErrInternalServer
      else case users d ident of
             None \<Rightarrow> Inl (domain_NotFoundError ''User'' ident)
           | Some u \<Rightarrow> Inr u)"

definition productRepository_FindByID :: "faults \<Rightarrow> db \<Rightarrow> int \<Rightarrow> error + product" where
  "productRepository_FindByID f d ident =
     (if f SelectProduct then Inl (NewInternalError sql_driver_error)
      else case products d ident of
             None \<Rightarrow> Inl (NewNotFoundError ''Product'' ident)
           | Some p \<Rightarrow> Inr p)"

text \<open>
  \<^verbatim>\<open>productRepository.UpdateStock\<close>: two statements on the connection pool, no
  transaction. The second one runs only when the first left a negative stock; its
  failure is logged and not returned.
\<close>

definition productRepository_UpdateStock ::
    "faults \<Rightarrow> int \<Rightarrow> db \<Rightarrow> int \<Rightarrow> int \<Rightarrow> unit outcome" where
  "productRepository_UpdateStock f now d ident quantity =
     (if f UpdateStockReturning then
        \<lparr>store = d, tx = TxNotStarted, returned = Inl (NewInternalError sql_driver_error)\<rparr>
      else case products d ident of
        None \<Rightarrow> \<lparr>store = d, tx = TxNotStarted, returned = Inl (NewNotFoundError ''Product'' ident)\<rparr>
      | Some p \<Rightarrow>
          (let newStock = p_Stock p + quantity;
               d1 = update_product ident
                      (\<lambda>r. r\<lparr>p_Stock := p_Stock r + quantity, p_UpdatedAt := now\<rparr>) d
           in if newStock < 0 then
                (let d2 = (if f RevertStock then d1
                           else update_product ident
                                  (\<lambda>r. r\<lparr>p_Stock := p_Stock r - quantity\<rparr>) d1)
                 in \<lparr>store = d2, tx = TxNotStarted,
                     returned = Inl (NewBadRequestError ''Insufficient stock'')\<rparr>)
              else \<lparr>store = d1, tx = TxNotStarted, returned = Inr ()\<rparr>))"

definition item_of_row :: "item_row \<Rightarrow> product \<Rightarrow> order_item" where
  "item_of_row r p =
     \<lparr>oi_ID = ir_id r, oi_OrderID = ir_order_id r, oi_ProductID = ir_product_id r,
      oi_Product = p, oi_Quantity = ir_quantity r, oi_Price = ir_price r,
      oi_CreatedAt = ir_created_at r, oi_UpdatedAt = ir_updated_at r\<rparr>"

definition row_of_item :: "order_item \<Rightarrow> item_row" where
  "row_of_item it =
     \<lparr>ir_id = oi_ID it, ir_order_id = oi_OrderID it, ir_product_id = oi_ProductID it,
      ir_quantity = oi_Quantity it, ir_price = oi_Price it,
      ir_created_at = oi_CreatedAt it, ir_updated_at = oi_UpdatedAt it\<rparr>"

definition row_of_order :: "order \<Rightarrow> order_row" where
  "row_of_order ord =
     \<lparr>or_id = o_ID ord, or_user_id = o_UserID ord, or_status = o_Status ord,
      or_total_amount = o_TotalAmount ord, or_payment_method = o_PaymentMethod ord,
      or_created_at = o_CreatedAt ord, or_updated_at = o_UpdatedAt ord\<rparr>"

text \<open>
  The row loop of \<^verbatim>\<open>GetOrderItems\<close>. The query left-joins \<^verbatim>\<open>products\<close>; scanning
  the NULL columns of a missing product into the Go struct is an error of
  \<^verbatim>\<open>rows.Scan\<close>.
\<close>

fun scan_items :: "db \<Rightarrow> item_row list \<Rightarrow> error + order_item list" where
  "scan_items d [] = Inr []"
| "scan_items d (r # rs) =
     (case products d (ir_product_id r) of
        None \<Rightarrow> Inl (NewInternalError sql_driver_error)
      | Some p \<Rightarrow>
          (case scan_items d rs of
             Inl e \<Rightarrow> Inl e
           | Inr its \<Rightarrow> Inr (item_of_row r p # its)))"

definition orderRepository_GetOrderItems ::
    "faults \<Rightarrow> db \<Rightarrow> int \<Rightarrow> error + order_item list" where
  "orderRepository_GetOrderItems f d orderID =
     (if f SelectItems then Inl (NewInternalError sql_driver_error)
      else scan_items d (filter (\<lambda>r. ir_order_id r = orderID) (order_items d)))"

definition orderRepository_GetShippingInfo ::
    "faults \<Rightarrow> db \<Rightarrow> int \<Rightarrow> error + shipping_info" where
  "orderRepository_GetShippingInfo f d orderID =
     (if f SelectShipping then Inl (NewInternalError sql_driver_error)
      else case find (\<lambda>s. si_OrderID s = orderID) (shipping_infos d) of
             None \<Rightarrow> Inl (NewNotFoundError ''ShippingInfo'' orderID)
           | Some s \<Rightarrow> Inr s)"

text \<open>
  The tail shared by \<^verbatim>\<open>orderRepository.FindByID\<close> and
  \<^verbatim>\<open>orderUseCase.GetOrderWithDetails\<close>:
  \<^verbatim>\<open>if err != nil && !errors.Is(err, ErrNotFound) { return nil, err }\<close>, then
  \<^verbatim>\<open>if shippingInfo != nil { order.ShippingInfo = *shippingInfo }\<close>.
\<close>

definition attach_shipping :: "order \<Rightarrow> error + shipping_info \<Rightarrow> error + order" where
  "attach_shipping ord r =
     (case r of
        Inl e \<Rightarrow> if \<not> errors_Is e ErrNotFound then Inl e else Inr ord
      | Inr s \<Rightarrow> Inr (ord\<lparr>o_ShippingInfo := s\<rparr>))"

text \<open>
  \<^verbatim>\<open>orderRepository.FindByID\<close>. The query left-joins \<^verbatim>\<open>users\<close> and selects no
  password; the NULL columns of a missing user fail the scan.
\<close>

definition orderRepository_FindByID :: "faults \<Rightarrow> db \<Rightarrow> int \<Rightarrow> error + order" where
  "orderRepository_FindByID f d ident =
     (if f SelectOrder then Inl (NewInternalError sql_driver_error)
      else case find (\<lambda>r. or_id r = ident) (orders d) of
        None \<Rightarrow> Inl (NewNotFoundError ''Order'' ident)
      | Some r \<Rightarrow>
          (case users d (or_user_id r) of
             None \<Rightarrow> Inl (NewInternalError sql_driver_error)
           | Some u \<Rightarrow>
               (let ord = \<lparr>o_ID = or_id r, o_UserID = or_user_id r,
                           o_User = u\<lparr>user_Password := []\<rparr>, o_Status = or_status r,
                           o_TotalAmount = or_total_amount r, o_Items = [],
                           o_PaymentMethod = or_payment_method r,
                           o_ShippingInfo = zero_shipping_info,
                           o_CreatedAt = or_created_at r, o_UpdatedAt = or_updated_at r\<rparr>
                in case orderRepository_GetOrderItems f d (o_ID ord) of
                     Inl e \<Rightarrow> Inl e
                   | Inr items \<Rightarrow>
                       attach_shipping (ord\<lparr>o_Items := items\<rparr>)
                         (orderRepository_GetShippingInfo f d (o_ID ord)))))"

text \<open>\<^verbatim>\<open>tx.Commit()\<close> as the last statement of a body, returning \<open>v\<close> to the caller.\<close>

definition commit_tx :: "faults \<Rightarrow> db \<Rightarrow> 'a \<Rightarrow> 'a body_exit" where
  "commit_tx f w v =
     (if f Commit then return_internal sql_driver_error w
      else \<lparr>err_var = None, ret = Inr v, work = w, commit_ok = True\<rparr>)"

text \<open>
  The item loop of \<^verbatim>\<open>orderRepository.Create\<close> for the items from position \<open>i\<close> on:
  insert the item row (\<^verbatim>\<open>order_items.product_id\<close> references \<^verbatim>\<open>products\<close>), then
  \<^verbatim>\<open>UPDATE products SET stock = stock - $1 ... RETURNING stock\<close>, then the check of
  the returned stock. \<open>Inl\<close> is a return from inside the loop, \<open>Inr\<close> the working
  state and the items (with their generated ids) after the last item.
\<close>

fun insert_items ::
    "faults \<Rightarrow> int \<Rightarrow> int \<Rightarrow> nat \<Rightarrow> order_item list \<Rightarrow> db
       \<Rightarrow> order body_exit + db \<times> order_item list" where
  "insert_items f now orderID i [] w = Inr (w, [])"
| "insert_items f now orderID i (it # its) w =
     (let it1 = it\<lparr>oi_OrderID := orderID, oi_CreatedAt := now, oi_UpdatedAt := now\<rparr> in
      if f (At i InsertItem) \<or> products w (oi_ProductID it1) = None then
        Inl (return_internal sql_driver_error w)
      else
        (let it2 = it1\<lparr>oi_ID := next_item_id w\<rparr>;
             w1 = w\<lparr>order_items := order_items w @ [row_of_item it2],
                    next_item_id := next_item_id w + 1\<rparr>
         in if f (At i DecrementStock) then Inl (return_internal sql_driver_error w1)
            else case products w1 (oi_ProductID it2) of
              None \<Rightarrow> Inl (return_internal sql_ErrNoRows w1)
            | Some p \<Rightarrow>
                (let newStock = p_Stock p - oi_Quantity it2;
                     w2 = update_product (oi_ProductID it2)
                            (\<lambda>r. r\<lparr>p_Stock := p_Stock r - oi_Quantity it2,
                                    p_UpdatedAt := now\<rparr>) w1
                 in if newStock < 0 then
                      Inl (return_fresh
                             (NewBadRequestError
                                (''Insufficient stock for product ID: ''
                                 @ Sprintf_d (oi_ProductID it2))) w2)
                    else case insert_items f now orderID (Suc i) its w2 of
                           Inl x \<Rightarrow> Inl x
                         | Inr (w3, its') \<Rightarrow> Inr (w3, it2 # its'))))"

text \<open>
  The body of \<^verbatim>\<open>orderRepository.Create\<close> after \<^verbatim>\<open>BeginTx\<close>. The order row
  references \<^verbatim>\<open>users\<close>. On success the caller's struct, updated through the pointer,
  is the returned value; on a failing return the use case discards the struct, and it is
  not part of the exit.
\<close>

definition orderRepository_Create_body :: "faults \<Rightarrow> int \<Rightarrow> db \<Rightarrow> order \<Rightarrow> order body_exit" where
  "orderRepository_Create_body f now d ord0 =
     (let ord1 = ord0\<lparr>o_CreatedAt := now, o_UpdatedAt := now\<rparr> in
      if f InsertOrder \<or> users d (o_UserID ord1) = None then
        return_internal sql_driver_error d
      else
        (let ord2 = ord1\<lparr>o_ID := next_order_id d\<rparr>;
             w1 = d\<lparr>orders := orders d @ [row_of_order ord2],
                    next_order_id := next_order_id d + 1\<rparr>
         in case insert_items f now (o_ID ord2) 0 (o_Items ord2) w1 of
              Inl x \<Rightarrow> x
            | Inr (w2, items) \<Rightarrow>
                (let ord3 = ord2\<lparr>o_Items := items\<rparr> in
                 if si_Address (o_ShippingInfo ord3) \<noteq> [] then
                   (let sh = (o_ShippingInfo ord3)\<lparr>si_OrderID := o_ID ord3,
                               si_CreatedAt := now, si_UpdatedAt := now\<rparr>
                    in if f InsertShipping then return_internal sql_driver_error w2
                       else
                         (let sh1 = sh\<lparr>si_ID := next_shipping_id w2\<rparr>;
                              w3 = w2\<lparr>shipping_infos := shipping_infos w2 @ [sh1],
                                     next_shipping_id := next_shipping_id w2 + 1\<rparr>
                          in commit_tx f w3 (ord3\<lparr>o_ShippingInfo := sh1\<rparr>)))
                 else commit_tx f w2 ord3)))"

definition begin_failed :: "db \<Rightarrow> 'a outcome" where
  "begin_failed d =
     \<lparr>store = d, tx = TxNotStarted, returned = Inl (NewInternalError sql_driver_error)\<rparr>"

definition orderRepository_Create :: "faults \<Rightarrow> int \<Rightarrow> db \<Rightarrow> order \<Rightarrow> order outcome" where
  "orderRepository_Create f now d ord =
     (if f BeginTx then begin_failed d
      else deferred_rollback d (orderRepository_Create_body f now d ord))"

text \<open>
  \<^verbatim>\<open>orderRepository.Delete\<close>: three \<^verbatim>\<open>DELETE\<close> statements, then the count of the
  rows the last one affected.
\<close>

definition orderRepository_Delete_body :: "faults \<Rightarrow> db \<Rightarrow> int \<Rightarrow> unit body_exit" where
  "orderRepository_Delete_body f d ident =
     (if f DeleteShipping then return_internal sql_driver_error d
      else
        (let w1 = d\<lparr>shipping_infos := filter (\<lambda>s. si_OrderID s \<noteq> ident) (shipping_infos d)\<rparr>
         in if f DeleteItems then return_internal sql_driver_error w1
            else
              (let w2 = w1\<lparr>order_items := filter (\<lambda>r. ir_order_id r \<noteq> ident) (order_items w1)\<rparr>
               in if f DeleteOrder then return_internal sql_driver_error w2
                  else
                    (let rowsAffected = length (filter (\<lambda>r. or_id r = ident) (orders w2));
                         w3 = w2\<lparr>orders := filter (\<lambda>r. or_id r \<noteq> ident) (orders w2)\<rparr>
                     in if f RowsAffected then return_internal sql_driver_error w3
                        else if rowsAffected = 0 then
                          return_fresh (NewNotFoundError ''Order'' ident) w3
                        else commit_tx f w3 ()))))"

definition orderRepository_Delete :: "faults \<Rightarrow> db \<Rightarrow> int \<Rightarrow> unit outcome" where
  "orderRepository_Delete f d ident =
     (if f BeginTx then begin_failed d
      else deferred_rollback d (orderRepository_Delete_body f d ident))"

text \<open>
  \<^verbatim>\<open>orderRepository.AddOrderItem\<close>. The product lookup assigns \<^verbatim>\<open>sql.ErrNoRows\<close>
  to \<^verbatim>\<open>err\<close> before it returns NotFound; the two other early returns build their
  error while \<^verbatim>\<open>err\<close> is nil. The returned value is the item with its generated id.
\<close>

definition orderRepository_AddOrderItem_body ::
    "faults \<Rightarrow> int \<Rightarrow> db \<Rightarrow> order_item \<Rightarrow> order_item body_exit" where
  "orderRepository_AddOrderItem_body f now d item =
     (if f SelectOrderExists then return_internal sql_driver_error d
      else if oi_OrderID item \<notin> set (map or_id (orders d)) then
        return_fresh (NewNotFoundError ''Order'' (oi_OrderID item)) d
      else if f SelectStock then return_internal sql_driver_error d
      else case products d (oi_ProductID item) of
        None \<Rightarrow>
          \<lparr>err_var = Some sql_ErrNoRows,
           ret = Inl (NewNotFoundError ''Product'' (oi_ProductID item)),
           work = d, commit_ok = False\<rparr>
      | Some p \<Rightarrow>
          if p_Stock p < oi_Quantity item then
            return_fresh (NewBadRequestError ''Insufficient stock'') d
          else
            (let item1 = item\<lparr>oi_CreatedAt := now, oi_UpdatedAt := now\<rparr> in
             if f InsertOrderItem then return_internal sql_driver_error d
             else
               (let item2 = item1\<lparr>oi_ID := next_item_id d\<rparr>;
                    w1 = d\<lparr>order_items := order_items d @ [row_of_item item2],
                           next_item_id := next_item_id d + 1\<rparr>
                in if f UpdateProductStock then return_internal sql_driver_error w1
                   else
                     (let w2 = update_product (oi_ProductID item2)
                                 (\<lambda>r. r\<lparr>p_Stock := p_Stock r - oi_Quantity item2,
                                         p_UpdatedAt := now\<rparr>) w1
                      in if f UpdateOrderTotal then return_internal sql_driver_error w2
                         else
                           (let w3 = w2\<lparr>orders :=
                                   map (\<lambda>r. if or_id r = oi_OrderID item2
                                             then r\<lparr>or_total_amount := or_total_amount r
                                                       + oi_Price item2 * real_of_int (oi_Quantity item2),
                                                     or_updated_at := now\<rparr>
                                             else r)
                                       (orders w2)\<rparr>
                            in commit_tx f w3 item2)))))"

definition orderRepository_AddOrderItem ::
    "faults \<Rightarrow> int \<Rightarrow> db \<Rightarrow> order_item \<Rightarrow> order_item outcome" where
  "orderRepository_AddOrderItem f now d item =
     (if f BeginTx then begin_failed d
      else deferred_rollback d (orderRepository_AddOrderItem_body f now d item))"

section \<open>Use cases (internal/usecase)\<close>

definition productUseCase_UpdateStock ::
    "faults \<Rightarrow> int \<Rightarrow> db \<Rightarrow> int \<Rightarrow> int \<Rightarrow> unit outcome" where
  "productUseCase_UpdateStock f now d ident quantity =
     productRepository_UpdateStock f now d ident quantity"

text \<open>
  The \<^verbatim>\<open>domain.OrderItem\<close> literal of \<^verbatim>\<open>orderUseCase.Create\<close>: product and
  quantity from the request, the price from the product just read.
\<close>

definition new_order_item :: "order_item_create_dto \<Rightarrow> product \<Rightarrow> order_item" where
  "new_order_item itemDTO product =
     \<lparr>oi_ID = 0, oi_OrderID = 0, oi_ProductID = dto_ProductID itemDTO,
      oi_Product = product, oi_Quantity = dto_Quantity itemDTO,
      oi_Price = p_Price product, oi_CreatedAt = 0, oi_UpdatedAt = 0\<rparr>"

text \<open>
  The line-item loop of \<^verbatim>\<open>orderUseCase.Create\<close> from position \<open>i\<close> on, with the
  items and the total accumulated so far. The price field of the request is not read.
\<close>

fun build_items ::
    "faults \<Rightarrow> db \<Rightarrow> nat \<Rightarrow> order_item_create_dto list \<Rightarrow> order_item list \<Rightarrow> real
       \<Rightarrow> error + order_item list \<times> real" where
  "build_items f d i [] orderItems totalAmount = Inr (orderItems, totalAmount)"
| "build_items f d i (itemDTO # rest) orderItems totalAmount =
     (case productRepository_FindByID (\<lambda>s. f (At i s)) d (dto_ProductID itemDTO) of
        Inl e \<Rightarrow>
          Inl (NewBadRequestError
                 (''Invalid product ID: '' @ Sprintf_d (dto_ProductID itemDTO)))
      | Inr product \<Rightarrow>
          if p_Stock product < dto_Quantity itemDTO then
            Inl (NewBadRequestError (''Insufficient stock for product: '' @ p_Name product))
          else
            build_items f d (Suc i) rest (orderItems @ [new_order_item itemDTO product])
              (totalAmount + p_Price product * real_of_int (dto_Quantity itemDTO)))"

definition rejected :: "db \<Rightarrow> error \<Rightarrow> 'a outcome" where
  "rejected d e = \<lparr>store = d, tx = TxNotStarted, returned = Inl e\<rparr>"

definition orderUseCase_Create ::
    "faults \<Rightarrow> int \<Rightarrow> db \<Rightarrow> order_create_dto \<Rightarrow> order outcome" where
  "orderUseCase_Create f now d createDTO =
     (case userRepository_GetByID f d (cd_UserID createDTO) of
        Inl e \<Rightarrow> rejected d (NewBadRequestError ''Invalid user ID'')
      | Inr u \<Rightarrow>
          if length (cd_Items createDTO) = 0 then
            rejected d (NewBadRequestError ''Order must have at least one item'')
          else case build_items f d 0 (cd_Items createDTO) [] 0 of
            Inl e \<Rightarrow> rejected d e
          | Inr (orderItems, totalAmount) \<Rightarrow>
              (let sd = cd_ShippingInfo createDTO;
                   shippingInfo = \<lparr>si_ID = 0, si_OrderID = 0, si_Address = sd_Address sd,
                                    si_City = sd_City sd, si_State = sd_State sd,
                                    si_Country = sd_Country sd,
                                    si_PostalCode = sd_PostalCode sd,
                                    si_PhoneNumber = sd_PhoneNumber sd,
                                    si_CreatedAt = 0, si_UpdatedAt = 0\<rparr>;
                   ord = \<lparr>o_ID = 0, o_UserID = cd_UserID createDTO, o_User = u,
                           o_Status = OrderStatusPending, o_TotalAmount = totalAmount,
                           o_Items = orderItems,
                           o_PaymentMethod = cd_PaymentMethod createDTO,
                           o_ShippingInfo = shippingInfo, o_CreatedAt = 0, o_UpdatedAt = 0\<rparr>
               in orderRepository_Create f now d ord))"

definition orderUseCase_GetOrderWithDetails :: "faults \<Rightarrow> db \<Rightarrow> int \<Rightarrow> error + order" where
  "orderUseCase_GetOrderWithDetails f d ident =
     (case orderRepository_FindByID f d ident of
        Inl e \<Rightarrow> Inl e
      | Inr ord \<Rightarrow>
          (case orderRepository_GetOrderItems (\<lambda>s. f (Again s)) d ident of
             Inl e \<Rightarrow> Inl e
           | Inr items \<Rightarrow>
               attach_shipping (ord\<lparr>o_Items := items\<rparr>)
                 (orderRepository_GetShippingInfo (\<lambda>s. f (Again s)) d ident)))"

section \<open>Relations used to state the properties\<close>

text \<open>
  What the item loop of \<^verbatim>\<open>orderRepository.Create\<close> leaves of an item \<open>it\<close> of the
  order it was given: the order id and both timestamps are set, the id is the generated
  one, and every other field is as it was.
\<close>

definition stamped :: "int \<Rightarrow> int \<Rightarrow> order_item \<Rightarrow> order_item \<Rightarrow> bool" where
  "stamped now orderID it' it =
     (oi_OrderID it' = orderID \<and> oi_CreatedAt it' = now \<and> oi_UpdatedAt it' = now
      \<and> oi_ProductID it' = oi_ProductID it \<and> oi_Product it' = oi_Product it
      \<and> oi_Quantity it' = oi_Quantity it \<and> oi_Price it' = oi_Price it)"

section \<open>The concrete scenario of the specification\<close>

text \<open>
  Buyer U1 exists; product P1 has stock 5 and price 10.00; no order has been placed.
  \<open>scenario_request u lines\<close> is the request of buyer \<open>u\<close> for the given
  (product, quantity) lines, each with a client-supplied price of 1.00.
\<close>

definition scenario_user :: user where
  "scenario_user = \<lparr>user_ID = 1, user_Username = ''u1'', user_Email = ''u1@example.com'',
     user_Password = ''hash'', user_Role = ''user'', user_CreatedAt = 0, user_UpdatedAt = 0\<rparr>"

definition scenario_product :: product where
  "scenario_product = \<lparr>p_ID = 1, p_Name = ''P1'', p_Description = [], p_Price = 10,
     p_SKU = ''SKU-1'', p_Stock = 5, p_CategoryID = 1, p_CreatedAt = 0, p_UpdatedAt = 0\<rparr>"

definition scenario_db :: db where
  "scenario_db = \<lparr>users = [1 \<mapsto> scenario_user], products = [1 \<mapsto> scenario_product],
     orders = [], order_items = [], shipping_infos = [],
     next_order_id = 1, next_item_id = 1, next_shipping_id = 1\<rparr>"

definition scenario_shipping :: shipping_info_dto where
  "scenario_shipping = \<lparr>sd_Address = ''1 Main St'', sd_City = ''Town'', sd_State = ''ST'',
     sd_Country = ''CC'', sd_PostalCode = ''00000'', sd_PhoneNumber = ''555''\<rparr>"

definition scenario_request :: "int \<Rightarrow> (int \<times> int) list \<Rightarrow> order_create_dto" where
  "scenario_request u lines =
     \<lparr>cd_UserID = u,
      cd_Items = map (\<lambda>(pid, q). \<lparr>dto_ProductID = pid, dto_Quantity = q, dto_Price = 1\<rparr>) lines,
      cd_PaymentMethod = ''paypal'', cd_ShippingInfo = scenario_shipping\<rparr>"

text \<open>
  An order struct as \<^verbatim>\<open>orderUseCase.Create\<close> builds it, for buyer U1 and one item of
  \<open>q\<close> units of P1 and no shipping address, handed to the repository directly.
\<close>

definition scenario_order :: "int \<Rightarrow> order" where
  "scenario_order q =
     \<lparr>o_ID = 0, o_UserID = 1, o_User = scenario_user, o_Status = OrderStatusPending,
      o_TotalAmount = 10 * real_of_int q,
      o_Items = [\<lparr>oi_ID = 0, oi_OrderID = 0, oi_ProductID = 1, oi_Product = scenario_product,
                  oi_Quantity = q, oi_Price = 10, oi_CreatedAt = 0, oi_UpdatedAt = 0\<rparr>],
      o_PaymentMethod = ''paypal'', o_ShippingInfo = zero_shipping_info,
      o_CreatedAt = 0, o_UpdatedAt = 0\<rparr>"

text \<open>
  The scenario with one pending order of buyer U1 already stored, and an item to add to
  an order: order, product, quantity and caller-supplied price.
\<close>

definition scenario_db_ordered :: db where
  "scenario_db_ordered =
     scenario_db\<lparr>orders := [\<lparr>or_id = 1, or_user_id = 1, or_status = ''pending'',
                               or_total_amount = 0, or_payment_method = ''paypal'',
                               or_created_at = 0, or_updated_at = 0\<rparr>],
                 next_order_id := 2\<rparr>"

definition scenario_item :: "int \<Rightarrow> int \<Rightarrow> int \<Rightarrow> real \<Rightarrow> order_item" where
  "scenario_item orderID productID q price =
     \<lparr>oi_ID = 0, oi_OrderID = orderID, oi_ProductID = productID, oi_Product = zero_product,
      oi_Quantity = q, oi_Price = price, oi_CreatedAt = 0, oi_UpdatedAt = 0\<rparr>"

text \<open>The scenario after buyer U1 has ordered 3 units of P1.\<close>

definition scenario_db_placed :: db where
  "scenario_db_placed =
     store (orderUseCase_Create no_faults 7 scenario_db (scenario_request 1 [(1, 3)]))"

section \<open>Unfolding the model on concrete inputs\<close>

lemmas model_defs =
  no_faults_def userRepository_GetByID_def productRepository_FindByID_def
  productRepository_UpdateStock_def productUseCase_UpdateStock_def update_product_def
  new_order_item_def orderUseCase_Create_def rejected_def
  orderRepository_Create_def orderRepository_Create_body_def begin_failed_def
  deferred_rollback_def return_internal_def return_fresh_def commit_tx_def
  row_of_item_def row_of_order_def item_of_row_def
  orderRepository_Delete_def orderRepository_Delete_body_def
  orderRepository_AddOrderItem_def orderRepository_AddOrderItem_body_def
  orderRepository_GetOrderItems_def orderRepository_GetShippingInfo_def
  orderRepository_FindByID_def orderUseCase_GetOrderWithDetails_def attach_shipping_def
  NewBadRequestError_def NewInternalError_def NewNotFoundError_def
  Sprintf_d_def decimal.simps OrderStatusPending_def Let_def

lemmas scenario_defs =
  scenario_db_def scenario_request_def scenario_user_def scenario_product_def
  scenario_shipping_def scenario_order_def zero_shipping_info_def

lemmas scenario2_defs = scenario_db_ordered_def scenario_item_def zero_product_def

section \<open>Error classification\<close>

lemma NewBadRequestError_kind:
  "errors_Is (NewBadRequestError msg) ErrInvalidInput"
  "\<not> errors_Is (NewBadRequestError msg) ErrNotFound"
  "GetStatusCode (NewBadRequestError msg) = 400"
  by (simp_all add: NewBadRequestError_def)

section \<open>Order creation: requests rejected before the transaction\<close>

lemma build_items_rejects:
  assumes "\<exists>it \<in> set its. products d (dto_ProductID it) = None
            \<or> (\<exists>p. products d (dto_ProductID it) = Some p \<and> p_Stock p < dto_Quantity it)"
  shows "\<exists>msg. build_items f d i its acc t = Inl (NewBadRequestError msg)"
  using assms
proof (induction its arbitrary: i acc t)
  case Nil
  then show ?case by simp
next
  case (Cons it its)
  show ?case
  proof (cases "productRepository_FindByID (\<lambda>s. f (At i s)) d (dto_ProductID it)")
    case (Inl e)
    then show ?thesis by auto
  next
    case (Inr p)
    then have p: "products d (dto_ProductID it) = Some p"
      by (auto simp: productRepository_FindByID_def split: if_splits option.splits)
    show ?thesis
    proof (cases "p_Stock p < dto_Quantity it")
      case True
      with Inr show ?thesis by auto
    next
      case False
      with Cons.prems p
      have "\<exists>it \<in> set its. products d (dto_ProductID it) = None
              \<or> (\<exists>p. products d (dto_ProductID it) = Some p \<and> p_Stock p < dto_Quantity it)"
        by auto
      from Cons.IH[OF this] Inr False show ?thesis by (simp add: Let_def)
    qed
  qed
qed

text \<open>
  Claim C5. Whatever the database does (any fault oracle \<open>f\<close>): when the buyer does not
  exist, or the request has no line item, or some line item names a product that does
  not exist, or some line item asks for more than the current stock of its product,
  \<^verbatim>\<open>orderUseCase.Create\<close> returns a bad-request error, which is InvalidInput and not
  NotFound, before any transaction is begun, and the database is as it was.
\<close>

theorem C5_create_rejects_without_side_effects:
  assumes "users d (cd_UserID dto) = None
         \<or> cd_Items dto = []
         \<or> (\<exists>it \<in> set (cd_Items dto). products d (dto_ProductID it) = None)
         \<or> (\<exists>it \<in> set (cd_Items dto). \<exists>p. products d (dto_ProductID it) = Some p
                \<and> p_Stock p < dto_Quantity it)"
  shows "\<exists>msg. orderUseCase_Create f now d dto
            = \<lparr>store = d, tx = TxNotStarted, returned = Inl (NewBadRequestError msg)\<rparr>
          \<and> errors_Is (NewBadRequestError msg) ErrInvalidInput
          \<and> \<not> errors_Is (NewBadRequestError msg) ErrNotFound
          \<and> GetStatusCode (NewBadRequestError msg) = 400"
proof (cases "userRepository_GetByID f d (cd_UserID dto)")
  case (Inl e)
  then show ?thesis
    by (auto simp add: orderUseCase_Create_def rejected_def NewBadRequestError_kind)
next
  case (Inr u)
  then have u: "users d (cd_UserID dto) \<noteq> None"
    by (auto simp: userRepository_GetByID_def split: if_splits option.splits)
  show ?thesis
  proof (cases "cd_Items dto = []")
    case True
    with Inr show ?thesis
      by (auto simp add: orderUseCase_Create_def rejected_def NewBadRequestError_kind)
  next
    case False
    with assms u
    have "\<exists>it \<in> set (cd_Items dto). products d (dto_ProductID it) = None
            \<or> (\<exists>p. products d (dto_ProductID it) = Some p \<and> p_Stock p < dto_Quantity it)"
      by blast
    from build_items_rejects[OF this, of f 0 "[]" 0]
    obtain msg where "build_items f d 0 (cd_Items dto) [] 0 = Inl (NewBadRequestError msg)"
      by blast
    with Inr False show ?thesis
      by (auto simp add: orderUseCase_Create_def rejected_def NewBadRequestError_kind)
  qed
qed

theorem C5_create_rejects_witness:
  "(\<exists>msg. orderUseCase_Create no_faults 7 scenario_db (scenario_request 2 [(1, 3)])
            = \<lparr>store = scenario_db, tx = TxNotStarted, returned = Inl (NewBadRequestError msg)\<rparr>)
 \<and> (\<exists>msg. orderUseCase_Create no_faults 7 scenario_db (scenario_request 1 [])
            = \<lparr>store = scenario_db, tx = TxNotStarted, returned = Inl (NewBadRequestError msg)\<rparr>)
 \<and> (\<exists>msg. orderUseCase_Create no_faults 7 scenario_db (scenario_request 1 [(1, 3), (9, 1)])
            = \<lparr>store = scenario_db, tx = TxNotStarted, returned = Inl (NewBadRequestError msg)\<rparr>)
 \<and> (\<exists>msg. orderUseCase_Create no_faults 7 scenario_db (scenario_request 1 [(1, 10)])
            = \<lparr>store = scenario_db, tx = TxNotStarted, returned = Inl (NewBadRequestError msg)\<rparr>)"
proof -
  have h1: "users scenario_db (cd_UserID (scenario_request 2 [(1, 3)])) = None
         \<or> cd_Items (scenario_request 2 [(1, 3)]) = []
         \<or> (\<exists>it \<in> set (cd_Items (scenario_request 2 [(1, 3)])).
               products scenario_db (dto_ProductID it) = None)
         \<or> (\<exists>it \<in> set (cd_Items (scenario_request 2 [(1, 3)])).
               \<exists>p. products scenario_db (dto_ProductID it) = Some p
                 \<and> p_Stock p < dto_Quantity it)"
    by (simp add: scenario_db_def scenario_request_def)
  have h2: "users scenario_db (cd_UserID (scenario_request 1 [])) = None
         \<or> cd_Items (scenario_request 1 []) = []
         \<or> (\<exists>it \<in> set (cd_Items (scenario_request 1 [])).
               products scenario_db (dto_ProductID it) = None)
         \<or> (\<exists>it \<in> set (cd_Items (scenario_request 1 [])).
               \<exists>p. products scenario_db (dto_ProductID it) = Some p
                 \<and> p_Stock p < dto_Quantity it)"
    by (simp add: scenario_request_def)
  have h3: "users scenario_db (cd_UserID (scenario_request 1 [(1, 3), (9, 1)])) = None
         \<or> cd_Items (scenario_request 1 [(1, 3), (9, 1)]) = []
         \<or> (\<exists>it \<in> set (cd_Items (scenario_request 1 [(1, 3), (9, 1)])).
               products scenario_db (dto_ProductID it) = None)
         \<or> (\<exists>it \<in> set (cd_Items (scenario_request 1 [(1, 3), (9, 1)])).
               \<exists>p. products scenario_db (dto_ProductID it) = Some p
                 \<and> p_Stock p < dto_Quantity it)"
    by (simp add: scenario_db_def scenario_request_def)
  have h4: "users scenario_db (cd_UserID (scenario_request 1 [(1, 10)])) = None
         \<or> cd_Items (scenario_request 1 [(1, 10)]) = []
         \<or> (\<exists>it \<in> set (cd_Items (scenario_request 1 [(1, 10)])).
               products scenario_db (dto_ProductID it) = None)
         \<or> (\<exists>it \<in> set (cd_Items (scenario_request 1 [(1, 10)])).
               \<exists>p. products scenario_db (dto_ProductID it) = Some p
                 \<and> p_Stock p < dto_Quantity it)"
    by (simp add: scenario_db_def scenario_request_def scenario_product_def)
  from C5_create_rejects_without_side_effects[OF h1, where f = no_faults and now = 7]
       C5_create_rejects_without_side_effects[OF h2, where f = no_faults and now = 7]
       C5_create_rejects_without_side_effects[OF h3, where f = no_faults and now = 7]
       C5_create_rejects_without_side_effects[OF h4, where f = no_faults and now = 7]
  show ?thesis by blast
qed

section \<open>Order creation: accepted requests\<close>

lemma update_product_Some:
  "products w pid = Some p \<Longrightarrow> update_product pid g w = w\<lparr>products := (products w)(pid \<mapsto> g p)\<rparr>"
  by (simp add: update_product_def)

lemma build_items_accepts:
  assumes "\<forall>it \<in> set its. \<exists>p. products d (dto_ProductID it) = Some p \<and> dto_Quantity it \<le> p_Stock p"
  shows "build_items no_faults d i its acc t =
           Inr (acc @ map (\<lambda>it. new_order_item it (the (products d (dto_ProductID it)))) its,
                t + (\<Sum>it\<leftarrow>its. p_Price (the (products d (dto_ProductID it))) * real_of_int (dto_Quantity it)))"
  using assms
proof (induction its arbitrary: i acc t)
  case Nil
  then show ?case by simp
next
  case (Cons it its)
  then obtain p where p: "products d (dto_ProductID it) = Some p" "dto_Quantity it \<le> p_Stock p"
    by auto
  have find: "productRepository_FindByID (\<lambda>s. no_faults (At i s)) d (dto_ProductID it) = Inr p"
    using p by (simp add: productRepository_FindByID_def no_faults_def)
  have rest: "\<forall>it \<in> set its. \<exists>p. products d (dto_ProductID it) = Some p \<and> dto_Quantity it \<le> p_Stock p"
    using Cons.prems by simp
  show ?case
    using p find Cons.IH[OF rest] by (simp add: add.assoc)
qed

lemma insert_items_Cons_ok:
  assumes "products w (oi_ProductID it) = Some p" "oi_Quantity it \<le> p_Stock p"
  shows "insert_items no_faults now oid i (it # its) w =
     (case insert_items no_faults now oid (Suc i) its
             (w\<lparr>order_items := order_items w @ [row_of_item (it\<lparr>oi_OrderID := oid, oi_CreatedAt := now, oi_UpdatedAt := now, oi_ID := next_item_id w\<rparr>)],
                next_item_id := next_item_id w + 1,
                products := (products w)(oi_ProductID it \<mapsto> p\<lparr>p_Stock := p_Stock p - oi_Quantity it, p_UpdatedAt := now\<rparr>)\<rparr>) of
        Inl x \<Rightarrow> Inl x | Inr (w3, its') \<Rightarrow> Inr (w3, it\<lparr>oi_OrderID := oid, oi_CreatedAt := now, oi_UpdatedAt := now, oi_ID := next_item_id w\<rparr> # its'))"
  using assms by (simp add: Let_def no_faults_def update_product_def)

lemma insert_items_accepts:
  assumes "distinct (map oi_ProductID its)"
      and "\<forall>it \<in> set its. \<exists>p. products w (oi_ProductID it) = Some p \<and> oi_Quantity it \<le> p_Stock p"
  shows "\<exists>w' its'. insert_items no_faults now oid i its w = Inr (w', its')
           \<and> list_all2 (stamped now oid) its' its
           \<and> order_items w' = order_items w @ map row_of_item its'
           \<and> orders w' = orders w \<and> shipping_infos w' = shipping_infos w
           \<and> users w' = users w \<and> next_order_id w' = next_order_id w
           \<and> next_shipping_id w' = next_shipping_id w
           \<and> (\<forall>it \<in> set its. \<exists>p. products w (oi_ProductID it) = Some p
                  \<and> products w' (oi_ProductID it)
                      = Some (p\<lparr>p_Stock := p_Stock p - oi_Quantity it, p_UpdatedAt := now\<rparr>))
           \<and> (\<forall>pid. pid \<notin> oi_ProductID ` set its \<longrightarrow> products w' pid = products w pid)"
  using assms
proof (induction its arbitrary: w i)
  case Nil
  then show ?case by simp
next
  case (Cons it its)
  then obtain p where p: "products w (oi_ProductID it) = Some p" "oi_Quantity it \<le> p_Stock p"
    by auto
  let ?it2 = "it\<lparr>oi_OrderID := oid, oi_CreatedAt := now, oi_UpdatedAt := now, oi_ID := next_item_id w\<rparr>"
  let ?w2 = "w\<lparr>order_items := order_items w @ [row_of_item ?it2],
                next_item_id := next_item_id w + 1,
                products := (products w)(oi_ProductID it \<mapsto> p\<lparr>p_Stock := p_Stock p - oi_Quantity it, p_UpdatedAt := now\<rparr>)\<rparr>"
  have fresh: "oi_ProductID it \<notin> oi_ProductID ` set its" and d: "distinct (map oi_ProductID its)"
    using Cons.prems(1) by auto
  have ne: "\<forall>it' \<in> set its. oi_ProductID it' \<noteq> oi_ProductID it"
    using fresh by (metis image_eqI)
  have rest: "\<forall>it' \<in> set its. \<exists>p. products ?w2 (oi_ProductID it') = Some p \<and> oi_Quantity it' \<le> p_Stock p"
    using Cons.prems(2) ne by simp
  from Cons.IH[OF d rest, of "Suc i"]
  obtain w' its' where r: "insert_items no_faults now oid (Suc i) its ?w2 = Inr (w', its')"
    and s: "list_all2 (stamped now oid) its' its"
    and oi: "order_items w' = order_items ?w2 @ map row_of_item its'"
    and same: "orders w' = orders ?w2" "shipping_infos w' = shipping_infos ?w2"
              "users w' = users ?w2" "next_order_id w' = next_order_id ?w2"
              "next_shipping_id w' = next_shipping_id ?w2"
    and dec: "\<forall>it \<in> set its. \<exists>p. products ?w2 (oi_ProductID it) = Some p
                  \<and> products w' (oi_ProductID it)
                      = Some (p\<lparr>p_Stock := p_Stock p - oi_Quantity it, p_UpdatedAt := now\<rparr>)"
    and others: "\<forall>pid. pid \<notin> oi_ProductID ` set its \<longrightarrow> products w' pid = products ?w2 pid"
    by blast
  have res: "insert_items no_faults now oid i (it # its) w = Inr (w', ?it2 # its')"
    using insert_items_Cons_ok[OF p, of now oid i its] r by simp
  have st: "list_all2 (stamped now oid) (?it2 # its') (it # its)"
    using s by (simp add: stamped_def)
  have oi': "order_items w' = order_items w @ map row_of_item (?it2 # its')"
    using oi by simp
  have head: "products w' (oi_ProductID it) = Some (p\<lparr>p_Stock := p_Stock p - oi_Quantity it, p_UpdatedAt := now\<rparr>)"
    using others fresh by simp
  have dec': "\<forall>it' \<in> set (it # its). \<exists>p. products w (oi_ProductID it') = Some p
                  \<and> products w' (oi_ProductID it')
                      = Some (p\<lparr>p_Stock := p_Stock p - oi_Quantity it', p_UpdatedAt := now\<rparr>)"
  proof
    fix it' assume "it' \<in> set (it # its)"
    then consider "it' = it" | "it' \<in> set its" by auto
    then show "\<exists>p. products w (oi_ProductID it') = Some p
                  \<and> products w' (oi_ProductID it')
                      = Some (p\<lparr>p_Stock := p_Stock p - oi_Quantity it', p_UpdatedAt := now\<rparr>)"
    proof cases
      case 1
      with p head show ?thesis by simp
    next
      case 2
      then have ne': "oi_ProductID it' \<noteq> oi_ProductID it" using ne by blast
      from dec 2 obtain q where "products ?w2 (oi_ProductID it') = Some q"
         "products w' (oi_ProductID it') = Some (q\<lparr>p_Stock := p_Stock q - oi_Quantity it', p_UpdatedAt := now\<rparr>)"
        by blast
      with ne' show ?thesis by simp
    qed
  qed
  have others': "\<forall>pid. pid \<notin> oi_ProductID ` set (it # its) \<longrightarrow> products w' pid = products w pid"
    using others by simp
  show ?case
    using res st oi' same dec' others' by simp
qed


lemma build_items_price_ignored:
  "build_items f d i (map (\<lambda>it. it\<lparr>dto_Price := g it\<rparr>) its) acc t = build_items f d i its acc t"
  by (induction its arbitrary: i acc t) (simp_all add: new_order_item_def split: sum.splits)

lemma orderUseCase_Create_accepts:
  assumes buyer: "users d (cd_UserID dto) = Some u"
      and nonempty: "cd_Items dto \<noteq> []"
      and dist: "distinct (map dto_ProductID (cd_Items dto))"
      and stock: "\<forall>it \<in> set (cd_Items dto). \<exists>p. products d (dto_ProductID it) = Some p
                    \<and> dto_Quantity it \<le> p_Stock p"
  obtains ord where
        "returned (orderUseCase_Create no_faults now d dto) = Inr ord"
    and "tx (orderUseCase_Create no_faults now d dto) = TxCommitted"
    and "o_Status ord = OrderStatusPending"
    and "o_UserID ord = cd_UserID dto"
    and "o_TotalAmount ord
           = (\<Sum>it\<leftarrow>cd_Items dto. p_Price (the (products d (dto_ProductID it)))
                                    * real_of_int (dto_Quantity it))"
    and "list_all2 (\<lambda>it' it. oi_ProductID it' = dto_ProductID it
                            \<and> oi_Quantity it' = dto_Quantity it
                            \<and> oi_Price it' = p_Price (the (products d (dto_ProductID it)))
                            \<and> oi_OrderID it' = o_ID ord)
           (o_Items ord) (cd_Items dto)"
    and "orders (store (orderUseCase_Create no_faults now d dto))
           = orders d @ [row_of_order ord]"
    and "order_items (store (orderUseCase_Create no_faults now d dto))
           = order_items d @ map row_of_item (o_Items ord)"
    and "\<forall>it \<in> set (cd_Items dto). \<exists>p. products d (dto_ProductID it) = Some p
            \<and> products (store (orderUseCase_Create no_faults now d dto)) (dto_ProductID it)
                = Some (p\<lparr>p_Stock := p_Stock p - dto_Quantity it, p_UpdatedAt := now\<rparr>)"
    and "\<forall>pid. pid \<notin> dto_ProductID ` set (cd_Items dto)
            \<longrightarrow> products (store (orderUseCase_Create no_faults now d dto)) pid = products d pid"
proof -
  let ?mk = "\<lambda>it. new_order_item it (the (products d (dto_ProductID it)))"
  let ?items0 = "map ?mk (cd_Items dto)"
  let ?total = "\<Sum>it\<leftarrow>cd_Items dto. p_Price (the (products d (dto_ProductID it)))
                                        * real_of_int (dto_Quantity it)"
  let ?sd = "cd_ShippingInfo dto"
  let ?ord0 = "\<lparr>o_ID = 0, o_UserID = cd_UserID dto, o_User = u,
                 o_Status = OrderStatusPending, o_TotalAmount = ?total, o_Items = ?items0,
                 o_PaymentMethod = cd_PaymentMethod dto,
                 o_ShippingInfo = \<lparr>si_ID = 0, si_OrderID = 0, si_Address = sd_Address ?sd,
                                    si_City = sd_City ?sd, si_State = sd_State ?sd,
                                    si_Country = sd_Country ?sd,
                                    si_PostalCode = sd_PostalCode ?sd,
                                    si_PhoneNumber = sd_PhoneNumber ?sd,
                                    si_CreatedAt = 0, si_UpdatedAt = 0\<rparr>,
                 o_CreatedAt = 0, o_UpdatedAt = 0\<rparr>"
  have uc: "orderUseCase_Create no_faults now d dto = orderRepository_Create no_faults now d ?ord0"
    using buyer nonempty build_items_accepts[OF stock, of 0 "[]" 0]
    by (simp add: orderUseCase_Create_def userRepository_GetByID_def no_faults_def Let_def)
  let ?ord2 = "?ord0\<lparr>o_CreatedAt := now, o_UpdatedAt := now, o_ID := next_order_id d\<rparr>"
  let ?w1 = "d\<lparr>orders := orders d @ [row_of_order ?ord2], next_order_id := next_order_id d + 1\<rparr>"
  have pid0: "map oi_ProductID ?items0 = map dto_ProductID (cd_Items dto)"
    by (simp add: new_order_item_def comp_def)
  have dist0: "distinct (map oi_ProductID ?items0)"
    unfolding pid0 by (rule dist)
  have stock0: "\<forall>it \<in> set ?items0. \<exists>p. products ?w1 (oi_ProductID it) = Some p
                  \<and> oi_Quantity it \<le> p_Stock p"
    using stock by (auto simp: new_order_item_def)
  from insert_items_accepts[OF dist0 stock0, of now "next_order_id d" 0]
  obtain w' its' where r: "insert_items no_faults now (next_order_id d) 0 ?items0 ?w1 = Inr (w', its')"
    and s: "list_all2 (stamped now (next_order_id d)) its' ?items0"
    and oi: "order_items w' = order_items ?w1 @ map row_of_item its'"
    and same: "orders w' = orders ?w1" "shipping_infos w' = shipping_infos ?w1"
              "users w' = users ?w1" "next_order_id w' = next_order_id ?w1"
              "next_shipping_id w' = next_shipping_id ?w1"
    and dec: "\<forall>it \<in> set ?items0. \<exists>p. products ?w1 (oi_ProductID it) = Some p
                  \<and> products w' (oi_ProductID it)
                      = Some (p\<lparr>p_Stock := p_Stock p - oi_Quantity it, p_UpdatedAt := now\<rparr>)"
    and others: "\<forall>pid. pid \<notin> oi_ProductID ` set ?items0 \<longrightarrow> products w' pid = products ?w1 pid"
    by blast
  have run: "\<exists>ord st. orderRepository_Create no_faults now d ?ord0
                 = \<lparr>store = st, tx = TxCommitted, returned = Inr ord\<rparr>
             \<and> o_Items ord = its' \<and> o_TotalAmount ord = ?total
             \<and> o_Status ord = OrderStatusPending \<and> o_UserID ord = cd_UserID dto
             \<and> o_ID ord = next_order_id d
             \<and> row_of_order ord = row_of_order ?ord2
             \<and> orders st = orders w' \<and> order_items st = order_items w'
             \<and> products st = products w'"
    using buyer r
    by (cases "sd_Address ?sd = []")
       (simp_all add: orderRepository_Create_def orderRepository_Create_body_def
          deferred_rollback_def commit_tx_def no_faults_def Let_def row_of_order_def)
  then obtain ord st where
        res: "orderUseCase_Create no_faults now d dto
                = \<lparr>store = st, tx = TxCommitted, returned = Inr ord\<rparr>"
    and ord: "o_Items ord = its'" "o_TotalAmount ord = ?total"
             "o_Status ord = OrderStatusPending" "o_UserID ord = cd_UserID dto"
             "o_ID ord = next_order_id d" "row_of_order ord = row_of_order ?ord2"
    and st: "orders st = orders w'" "order_items st = order_items w'"
            "products st = products w'"
    unfolding uc by blast
  have items: "list_all2 (\<lambda>it' it. oi_ProductID it' = dto_ProductID it
                                \<and> oi_Quantity it' = dto_Quantity it
                                \<and> oi_Price it' = p_Price (the (products d (dto_ProductID it)))
                                \<and> oi_OrderID it' = o_ID ord)
               (o_Items ord) (cd_Items dto)"
    using s unfolding ord list_all2_map2
    by (rule list_all2_mono) (simp add: stamped_def new_order_item_def)
  have dec': "\<forall>it \<in> set (cd_Items dto). \<exists>p. products d (dto_ProductID it) = Some p
                \<and> products st (dto_ProductID it)
                    = Some (p\<lparr>p_Stock := p_Stock p - dto_Quantity it, p_UpdatedAt := now\<rparr>)"
    using dec unfolding st by (simp add: new_order_item_def)
  have others': "\<forall>pid. pid \<notin> dto_ProductID ` set (cd_Items dto) \<longrightarrow> products st pid = products d pid"
    using others unfolding st by (simp add: new_order_item_def image_image)
  have f1: "returned (orderUseCase_Create no_faults now d dto) = Inr ord"
   and f2: "tx (orderUseCase_Create no_faults now d dto) = TxCommitted"
   and f3: "store (orderUseCase_Create no_faults now d dto) = st"
    by (simp_all add: res)
  have f7: "orders st = orders d @ [row_of_order ord]"
    using st(1) same(1) ord(6) by simp
  have f8: "order_items st = order_items d @ map row_of_item (o_Items ord)"
    using st(2) oi ord(1) by simp
  show thesis
    using f1 f2 ord(3) ord(4) ord(2) items f7 f8 dec' others'
    unfolding f3[symmetric] by (rule that)
qed

lemma orderUseCase_Create_price_ignored:
  "orderUseCase_Create f now d (dto\<lparr>cd_Items := map (\<lambda>it. it\<lparr>dto_Price := g it\<rparr>) (cd_Items dto)\<rparr>)
     = orderUseCase_Create f now d dto"
  by (simp add: orderUseCase_Create_def build_items_price_ignored
        cong: sum.case_cong if_cong)

text \<open>
  Claim C1, amended. The claim as stated fails for a request with no line item and for a
  request with two lines for one product whose quantities are each within the stock but
  not together: the decrement inside the transaction leaves a negative stock and the
  order is refused. For a request with at least one line item, no two lines naming the
  same product, an existing buyer, and every product present with a stock of at least
  the requested quantity, and a database that executes every statement:
  \<^verbatim>\<open>orderUseCase.Create\<close> commits and returns a pending order; its total is the sum
  over the lines of the product's current price times the requested quantity; each item
  records that product's current price; one order row and one item row per line are
  appended; the stock of each line's product is lowered by the line's quantity and no
  other product changes. The price field of the request has no influence on the
  outcome.
\<close>

theorem C1_create_valid_request:
  assumes "users d (cd_UserID dto) = Some u"
      and "cd_Items dto \<noteq> []"
      and "distinct (map dto_ProductID (cd_Items dto))"
      and "\<forall>it \<in> set (cd_Items dto). \<exists>p. products d (dto_ProductID it) = Some p
              \<and> dto_Quantity it \<le> p_Stock p"
  shows "(\<exists>ord. returned (orderUseCase_Create no_faults now d dto) = Inr ord
           \<and> tx (orderUseCase_Create no_faults now d dto) = TxCommitted
           \<and> o_Status ord = OrderStatusPending
           \<and> o_UserID ord = cd_UserID dto
           \<and> o_TotalAmount ord
               = (\<Sum>it\<leftarrow>cd_Items dto. p_Price (the (products d (dto_ProductID it)))
                                        * real_of_int (dto_Quantity it))
           \<and> list_all2 (\<lambda>it' it. oi_ProductID it' = dto_ProductID it
                                \<and> oi_Quantity it' = dto_Quantity it
                                \<and> oi_Price it' = p_Price (the (products d (dto_ProductID it)))
                                \<and> oi_OrderID it' = o_ID ord)
               (o_Items ord) (cd_Items dto)
           \<and> orders (store (orderUseCase_Create no_faults now d dto))
               = orders d @ [row_of_order ord]
           \<and> order_items (store (orderUseCase_Create no_faults now d dto))
               = order_items d @ map row_of_item (o_Items ord)
           \<and> (\<forall>it \<in> set (cd_Items dto). \<exists>p. products d (dto_ProductID it) = Some p
                \<and> products (store (orderUseCase_Create no_faults now d dto)) (dto_ProductID it)
                    = Some (p\<lparr>p_Stock := p_Stock p - dto_Quantity it, p_UpdatedAt := now\<rparr>))
           \<and> (\<forall>pid. pid \<notin> dto_ProductID ` set (cd_Items dto)
                \<longrightarrow> products (store (orderUseCase_Create no_faults now d dto)) pid
                      = products d pid))
       \<and> length (orders (store (orderUseCase_Create no_faults now d dto)))
           = length (orders d) + 1
       \<and> length (order_items (store (orderUseCase_Create no_faults now d dto)))
           = length (order_items d) + length (cd_Items dto)
       \<and> (\<forall>g. orderUseCase_Create no_faults now d
                  (dto\<lparr>cd_Items := map (\<lambda>it. it\<lparr>dto_Price := g it\<rparr>) (cd_Items dto)\<rparr>)
                = orderUseCase_Create no_faults now d dto)"
proof -
  obtain ord where
        ok: "returned (orderUseCase_Create no_faults now d dto) = Inr ord"
    and committed: "tx (orderUseCase_Create no_faults now d dto) = TxCommitted"
    and pending: "o_Status ord = OrderStatusPending"
    and buyer: "o_UserID ord = cd_UserID dto"
    and total: "o_TotalAmount ord
           = (\<Sum>it\<leftarrow>cd_Items dto. p_Price (the (products d (dto_ProductID it)))
                                    * real_of_int (dto_Quantity it))"
    and items: "list_all2 (\<lambda>it' it. oi_ProductID it' = dto_ProductID it
                            \<and> oi_Quantity it' = dto_Quantity it
                            \<and> oi_Price it' = p_Price (the (products d (dto_ProductID it)))
                            \<and> oi_OrderID it' = o_ID ord)
           (o_Items ord) (cd_Items dto)"
    and order_rows: "orders (store (orderUseCase_Create no_faults now d dto))
           = orders d @ [row_of_order ord]"
    and item_rows: "order_items (store (orderUseCase_Create no_faults now d dto))
           = order_items d @ map row_of_item (o_Items ord)"
    and dec: "\<forall>it \<in> set (cd_Items dto). \<exists>p. products d (dto_ProductID it) = Some p
            \<and> products (store (orderUseCase_Create no_faults now d dto)) (dto_ProductID it)
                = Some (p\<lparr>p_Stock := p_Stock p - dto_Quantity it, p_UpdatedAt := now\<rparr>)"
    and others: "\<forall>pid. pid \<notin> dto_ProductID ` set (cd_Items dto)
            \<longrightarrow> products (store (orderUseCase_Create no_faults now d dto)) pid = products d pid"
    by (rule orderUseCase_Create_accepts[OF assms, where now = now]) (rule that)
  have n: "length (o_Items ord) = length (cd_Items dto)"
    using items by (rule list_all2_lengthD)
  have c1: "length (orders (store (orderUseCase_Create no_faults now d dto)))
              = length (orders d) + 1"
    using order_rows by simp
  have c2: "length (order_items (store (orderUseCase_Create no_faults now d dto)))
              = length (order_items d) + length (cd_Items dto)"
    using item_rows n by simp
  have pr: "\<forall>g. orderUseCase_Create no_faults now d
                  (dto\<lparr>cd_Items := map (\<lambda>it. it\<lparr>dto_Price := g it\<rparr>) (cd_Items dto)\<rparr>)
                = orderUseCase_Create no_faults now d dto"
    by (simp add: orderUseCase_Create_price_ignored)
  from ok committed pending buyer total items order_rows item_rows dec others
  have ex: "\<exists>ord. returned (orderUseCase_Create no_faults now d dto) = Inr ord
           \<and> tx (orderUseCase_Create no_faults now d dto) = TxCommitted
           \<and> o_Status ord = OrderStatusPending
           \<and> o_UserID ord = cd_UserID dto
           \<and> o_TotalAmount ord
               = (\<Sum>it\<leftarrow>cd_Items dto. p_Price (the (products d (dto_ProductID it)))
                                        * real_of_int (dto_Quantity it))
           \<and> list_all2 (\<lambda>it' it. oi_ProductID it' = dto_ProductID it
                                \<and> oi_Quantity it' = dto_Quantity it
                                \<and> oi_Price it' = p_Price (the (products d (dto_ProductID it)))
                                \<and> oi_OrderID it' = o_ID ord)
               (o_Items ord) (cd_Items dto)
           \<and> orders (store (orderUseCase_Create no_faults now d dto))
               = orders d @ [row_of_order ord]
           \<and> order_items (store (orderUseCase_Create no_faults now d dto))
               = order_items d @ map row_of_item (o_Items ord)
           \<and> (\<forall>it \<in> set (cd_Items dto). \<exists>p. products d (dto_ProductID it) = Some p
                \<and> products (store (orderUseCase_Create no_faults now d dto)) (dto_ProductID it)
                    = Some (p\<lparr>p_Stock := p_Stock p - dto_Quantity it, p_UpdatedAt := now\<rparr>))
           \<and> (\<forall>pid. pid \<notin> dto_ProductID ` set (cd_Items dto)
                \<longrightarrow> products (store (orderUseCase_Create no_faults now d dto)) pid
                      = products d pid)"
    by (intro exI[of _ ord] conjI)
  show ?thesis
    by (rule conjI[OF ex conjI[OF c1 conjI[OF c2 pr]]])
qed

theorem C1_create_valid_request_witness:
  "\<exists>ord. returned (orderUseCase_Create no_faults 7 scenario_db (scenario_request 1 [(1, 3)]))
            = Inr ord
     \<and> tx (orderUseCase_Create no_faults 7 scenario_db (scenario_request 1 [(1, 3)]))
            = TxCommitted
     \<and> o_TotalAmount ord = 30
     \<and> map oi_Price (o_Items ord) = [10]
     \<and> map_option p_Stock
          (products (store (orderUseCase_Create no_faults 7 scenario_db
                              (scenario_request 1 [(1, 3)]))) 1) = Some 2
     \<and> length (orders (store (orderUseCase_Create no_faults 7 scenario_db
                                 (scenario_request 1 [(1, 3)])))) = 1
     \<and> length (order_items (store (orderUseCase_Create no_faults 7 scenario_db
                                      (scenario_request 1 [(1, 3)])))) = 1"
proof -
  have h1: "users scenario_db (cd_UserID (scenario_request 1 [(1, 3)])) = Some scenario_user"
    by (simp add: scenario_db_def scenario_request_def)
  have h2: "cd_Items (scenario_request 1 [(1, 3)]) \<noteq> []"
    by (simp add: scenario_request_def)
  have h3: "distinct (map dto_ProductID (cd_Items (scenario_request 1 [(1, 3)])))"
    by (simp add: scenario_request_def)
  have h4: "\<forall>it \<in> set (cd_Items (scenario_request 1 [(1, 3)])).
              \<exists>p. products scenario_db (dto_ProductID it) = Some p \<and> dto_Quantity it \<le> p_Stock p"
    by (simp add: scenario_request_def scenario_db_def scenario_product_def)
  from C1_create_valid_request[OF h1 h2 h3 h4, of 7]
  have "length (orders (store (orderUseCase_Create no_faults 7 scenario_db
                                 (scenario_request 1 [(1, 3)]))))
          = length (orders scenario_db) + 1"
    by simp
  then show ?thesis
    by (auto simp add: model_defs scenario_defs)
qed

theorem C1_counterexample:
  "users scenario_db 1 = Some scenario_user
   \<and> list_all (\<lambda>it. \<exists>p. products scenario_db (dto_ProductID it) = Some p
                        \<and> dto_Quantity it \<le> p_Stock p)
        (cd_Items (scenario_request 1 [(1, 3), (1, 3)]))
   \<and> returned (orderUseCase_Create no_faults 7 scenario_db (scenario_request 1 [(1, 3), (1, 3)]))
       = Inl (NewBadRequestError ''Insufficient stock for product ID: 1'')
   \<and> returned (orderUseCase_Create no_faults 7 scenario_db (scenario_request 1 []))
       = Inl (NewBadRequestError ''Order must have at least one item'')"
  by (simp add: model_defs scenario_defs)

section \<open>Order creation: quantities that are not positive\<close>

text \<open>
  Claim C9. Nothing in \<^verbatim>\<open>orderUseCase.Create\<close> or \<^verbatim>\<open>orderRepository.Create\<close>
  rejects a quantity that is zero or negative. For a line item \<open>it\<close> with quantity at
  most 0 whose product exists with a stock of at least 0: the loop of the use case passes
  the comparison \<^verbatim>\<open>product.Stock < itemDTO.Quantity\<close> and goes on to the next line
  with the item accepted; and when the buyer exists, no two lines name the same product,
  the other lines are within their stock and the database executes every statement, the
  order is created and committed, the stock of the product grows by the absolute value of
  the quantity, the line contributes price times quantity to the total, and with a
  positive price and a negative quantity the total is below the total of the other
  lines.
\<close>

theorem C9_nonpositive_quantity_accepted:
  assumes buyer: "users d (cd_UserID dto) = Some u"
      and dist: "distinct (map dto_ProductID (cd_Items dto))"
      and line: "it \<in> set (cd_Items dto)"
      and prod: "products d (dto_ProductID it) = Some p"
      and stock0: "0 \<le> p_Stock p"
      and qty: "dto_Quantity it \<le> 0"
      and rest: "\<forall>it' \<in> set (cd_Items dto). it' \<noteq> it \<longrightarrow>
                   (\<exists>p'. products d (dto_ProductID it') = Some p' \<and> dto_Quantity it' \<le> p_Stock p')"
  shows "(\<forall>f i more acc t. \<not> f (At i SelectProduct) \<longrightarrow>
            build_items f d i (it # more) acc t
              = build_items f d (Suc i) more (acc @ [new_order_item it p])
                  (t + p_Price p * real_of_int (dto_Quantity it)))
       \<and> (\<exists>ord. returned (orderUseCase_Create no_faults now d dto) = Inr ord
             \<and> tx (orderUseCase_Create no_faults now d dto) = TxCommitted
             \<and> products (store (orderUseCase_Create no_faults now d dto)) (dto_ProductID it)
                 = Some (p\<lparr>p_Stock := p_Stock p + \<bar>dto_Quantity it\<bar>, p_UpdatedAt := now\<rparr>)
             \<and> o_TotalAmount ord
                 = (\<Sum>it'\<leftarrow>remove1 it (cd_Items dto).
                      p_Price (the (products d (dto_ProductID it'))) * real_of_int (dto_Quantity it'))
                   + p_Price p * real_of_int (dto_Quantity it)
             \<and> (0 < p_Price p \<and> dto_Quantity it < 0 \<longrightarrow>
                  o_TotalAmount ord
                    < (\<Sum>it'\<leftarrow>remove1 it (cd_Items dto).
                         p_Price (the (products d (dto_ProductID it'))) * real_of_int (dto_Quantity it'))))"
proof -
  have step: "\<forall>f i more acc t. \<not> f (At i SelectProduct) \<longrightarrow>
            build_items f d i (it # more) acc t
              = build_items f d (Suc i) more (acc @ [new_order_item it p])
                  (t + p_Price p * real_of_int (dto_Quantity it))"
    using prod stock0 qty by (simp add: productRepository_FindByID_def)
  have nonempty: "cd_Items dto \<noteq> []"
    using line by auto
  have stock: "\<forall>it' \<in> set (cd_Items dto). \<exists>p'. products d (dto_ProductID it') = Some p'
                  \<and> dto_Quantity it' \<le> p_Stock p'"
  proof
    fix it' assume "it' \<in> set (cd_Items dto)"
    show "\<exists>p'. products d (dto_ProductID it') = Some p' \<and> dto_Quantity it' \<le> p_Stock p'"
    proof (cases "it' = it")
      case True
      with prod stock0 qty show ?thesis by simp
    next
      case False
      with rest \<open>it' \<in> set (cd_Items dto)\<close> show ?thesis by blast
    qed
  qed
  let ?amount = "\<lambda>it'. p_Price (the (products d (dto_ProductID it'))) * real_of_int (dto_Quantity it')"
  obtain ord where ok: "returned (orderUseCase_Create no_faults now d dto) = Inr ord"
    and committed: "tx (orderUseCase_Create no_faults now d dto) = TxCommitted"
    and total: "o_TotalAmount ord
           = (\<Sum>it\<leftarrow>cd_Items dto. p_Price (the (products d (dto_ProductID it)))
                                    * real_of_int (dto_Quantity it))"
    and dec: "\<forall>it \<in> set (cd_Items dto). \<exists>p. products d (dto_ProductID it) = Some p
            \<and> products (store (orderUseCase_Create no_faults now d dto)) (dto_ProductID it)
                = Some (p\<lparr>p_Stock := p_Stock p - dto_Quantity it, p_UpdatedAt := now\<rparr>)"
    by (rule orderUseCase_Create_accepts[OF buyer nonempty dist stock, where now = now])
       (rule that)
  have abs: "p_Stock p - dto_Quantity it = p_Stock p + \<bar>dto_Quantity it\<bar>"
    using qty by simp
  have stock': "products (store (orderUseCase_Create no_faults now d dto)) (dto_ProductID it)
                 = Some (p\<lparr>p_Stock := p_Stock p + \<bar>dto_Quantity it\<bar>, p_UpdatedAt := now\<rparr>)"
  proof -
    from dec line obtain q where q: "products d (dto_ProductID it) = Some q"
      "products (store (orderUseCase_Create no_faults now d dto)) (dto_ProductID it)
         = Some (q\<lparr>p_Stock := p_Stock q - dto_Quantity it, p_UpdatedAt := now\<rparr>)"
      by blast
    with prod have "q = p" by simp
    with q show ?thesis unfolding abs[symmetric] by simp
  qed
  have split: "o_TotalAmount ord = (\<Sum>it'\<leftarrow>remove1 it (cd_Items dto). ?amount it')
                 + p_Price p * real_of_int (dto_Quantity it)"
    using total sum_list_map_remove1[OF line, of ?amount] prod by simp
  have less: "0 < p_Price p \<and> dto_Quantity it < 0 \<longrightarrow>
                o_TotalAmount ord < (\<Sum>it'\<leftarrow>remove1 it (cd_Items dto). ?amount it')"
    using split by (simp add: mult_pos_neg)
  from ok committed stock' split less
  have "\<exists>ord. returned (orderUseCase_Create no_faults now d dto) = Inr ord
             \<and> tx (orderUseCase_Create no_faults now d dto) = TxCommitted
             \<and> products (store (orderUseCase_Create no_faults now d dto)) (dto_ProductID it)
                 = Some (p\<lparr>p_Stock := p_Stock p + \<bar>dto_Quantity it\<bar>, p_UpdatedAt := now\<rparr>)
             \<and> o_TotalAmount ord
                 = (\<Sum>it'\<leftarrow>remove1 it (cd_Items dto). ?amount it')
                   + p_Price p * real_of_int (dto_Quantity it)
             \<and> (0 < p_Price p \<and> dto_Quantity it < 0 \<longrightarrow>
                  o_TotalAmount ord < (\<Sum>it'\<leftarrow>remove1 it (cd_Items dto). ?amount it'))"
    by (intro exI[of _ ord] conjI)
  with step show ?thesis by (rule conjI)
qed



theorem C9_nonpositive_quantity_witness:
  "\<exists>ord. returned (orderUseCase_Create no_faults 7 scenario_db (scenario_request 1 [(1, - 2)]))
            = Inr ord
     \<and> o_TotalAmount ord = - 20
     \<and> map_option p_Stock
          (products (store (orderUseCase_Create no_faults 7 scenario_db
                              (scenario_request 1 [(1, - 2)]))) 1) = Some 7"
proof -
  let ?it = "\<lparr>dto_ProductID = 1, dto_Quantity = - 2, dto_Price = 1\<rparr>"
  have h1: "users scenario_db (cd_UserID (scenario_request 1 [(1, - 2)])) = Some scenario_user"
    by (simp add: scenario_db_def scenario_request_def)
  have h2: "distinct (map dto_ProductID (cd_Items (scenario_request 1 [(1, - 2)])))"
    by (simp add: scenario_request_def)
  have h3: "?it \<in> set (cd_Items (scenario_request 1 [(1, - 2)]))"
    by (simp add: scenario_request_def)
  have h4: "products scenario_db (dto_ProductID ?it) = Some scenario_product"
    by (simp add: scenario_db_def)
  have h5: "0 \<le> p_Stock scenario_product"
    by (simp add: scenario_product_def)
  have h6: "dto_Quantity ?it \<le> 0"
    by simp
  have h7: "\<forall>it' \<in> set (cd_Items (scenario_request 1 [(1, - 2)])). it' \<noteq> ?it \<longrightarrow>
              (\<exists>p'. products scenario_db (dto_ProductID it') = Some p'
                 \<and> dto_Quantity it' \<le> p_Stock p')"
    by (simp add: scenario_request_def)
  from C9_nonpositive_quantity_accepted[OF h1 h2 h3 h4 h5 h6 h7, where now = 7]
  obtain ord where
    "returned (orderUseCase_Create no_faults 7 scenario_db (scenario_request 1 [(1, - 2)])) = Inr ord"
    "products (store (orderUseCase_Create no_faults 7 scenario_db (scenario_request 1 [(1, - 2)])))
        (dto_ProductID ?it)
       = Some (scenario_product\<lparr>p_Stock := p_Stock scenario_product + \<bar>dto_Quantity ?it\<bar>,
                                p_UpdatedAt := 7\<rparr>)"
    "o_TotalAmount ord
       = (\<Sum>it'\<leftarrow>remove1 ?it (cd_Items (scenario_request 1 [(1, - 2)])).
            p_Price (the (products scenario_db (dto_ProductID it'))) * real_of_int (dto_Quantity it'))
         + p_Price scenario_product * real_of_int (dto_Quantity ?it)"
    by (elim conjE exE)
  then show ?thesis
    by (simp add: scenario_request_def scenario_product_def)
qed

section \<open>Order creation: failures inside the transaction\<close>

text \<open>
  Every failing return of the item loop is one of two kinds: a database error, which the
  loop has stored in \<^verbatim>\<open>err\<close> and returns wrapped as Internal, or the bad-request
  error of the stock check, built while \<^verbatim>\<open>err\<close> is nil.
\<close>

lemma insert_items_exit:
  "insert_items f now oid i its w = Inl x \<Longrightarrow>
     \<not> commit_ok x
     \<and> ((\<exists>raw. err_var x = Some raw \<and> ret x = Inl (NewInternalError raw))
        \<or> (err_var x = None \<and> (\<exists>msg. ret x = Inl (NewBadRequestError msg))))"
proof (induction its arbitrary: w i)
  case Nil
  then show ?case by simp
next
  case (Cons it its)
  from Cons.prems show ?case
    by (auto simp: Let_def return_internal_def return_fresh_def
             split: if_splits option.splits sum.splits dest!: Cons.IH)
qed

lemma orderRepository_Create_body_exit:
  assumes "ret (orderRepository_Create_body f now d ord) = Inl e"
  shows "\<not> commit_ok (orderRepository_Create_body f now d ord)
     \<and> ((\<exists>raw. err_var (orderRepository_Create_body f now d ord) = Some raw \<and> e = NewInternalError raw)
        \<or> (err_var (orderRepository_Create_body f now d ord) = None \<and> (\<exists>msg. e = NewBadRequestError msg)))"
  using assms
  by (auto simp: orderRepository_Create_body_def Let_def return_internal_def commit_tx_def
           split: if_splits sum.splits dest!: insert_items_exit)

lemma orderRepository_Create_failure_kinds:
  assumes "returned (orderRepository_Create f now d ord) = Inl e"
  shows "store (orderRepository_Create f now d ord) = d
     \<and> ((\<exists>raw. e = NewInternalError raw
            \<and> (tx (orderRepository_Create f now d ord) = TxNotStarted
               \<or> (\<exists>w. tx (orderRepository_Create f now d ord) = TxRolledBack w)))
        \<or> (\<exists>msg. e = NewBadRequestError msg
            \<and> (\<exists>w. tx (orderRepository_Create f now d ord) = TxLeftOpen w)))"
proof (cases "f BeginTx")
  case True
  with assms show ?thesis
    by (auto simp: orderRepository_Create_def begin_failed_def)
next
  case False
  with assms have "ret (orderRepository_Create_body f now d ord) = Inl e"
    by (simp add: orderRepository_Create_def deferred_rollback_def split: if_splits)
  from orderRepository_Create_body_exit[OF this] False show ?thesis
    by (auto simp: orderRepository_Create_def deferred_rollback_def)
qed

text \<open>
  Claim C2. The claim says that every failure of the unit, the insufficient-stock abort
  included, rolls back the writes made so far. The code does so for database errors
  only. Evaluated on the scenario with two lines of 3 units of P1 (stock 5): both lines
  pass the check of the use case, the second decrement inside the transaction returns a
  stock of -1, and \<^verbatim>\<open>orderRepository.Create\<close> returns the bad-request error while
  \<^verbatim>\<open>err\<close> is nil, so the deferred function does not call \<^verbatim>\<open>tx.Rollback()\<close>. The
  committed tables are unchanged, but the transaction is left open with its order row,
  its two item rows and the stock of -1 pending.
\<close>

theorem C2_insufficient_stock_abort_not_rolled_back:
  "returned (orderUseCase_Create no_faults 7 scenario_db (scenario_request 1 [(1, 3), (1, 3)]))
     = Inl (NewBadRequestError ''Insufficient stock for product ID: 1'')
   \<and> store (orderUseCase_Create no_faults 7 scenario_db (scenario_request 1 [(1, 3), (1, 3)]))
     = scenario_db
   \<and> (\<forall>w. tx (orderUseCase_Create no_faults 7 scenario_db (scenario_request 1 [(1, 3), (1, 3)]))
            \<noteq> TxRolledBack w)
   \<and> (case tx (orderUseCase_Create no_faults 7 scenario_db (scenario_request 1 [(1, 3), (1, 3)])) of
         TxLeftOpen w \<Rightarrow> length (orders w) = 1 \<and> length (order_items w) = 2
                           \<and> map_option p_Stock (products w 1) = Some (- 1)
       | _ \<Rightarrow> False)"
  by (simp add: model_defs scenario_defs)

text \<open>
  Claim C6. The claim says that an insufficient-stock condition yields InvalidInput with
  rollback, as a database error yields Internal with rollback. Evaluated on the
  repository with an order of 10 units of P1 (stock 5): the error is the bad-request
  error (status 400), and the transaction is left open, not rolled back; the same call
  with a database error on the stock update returns Internal and is rolled back.
\<close>

theorem C6_insufficient_stock_returned_without_rollback:
  "returned (orderRepository_Create no_faults 7 scenario_db (scenario_order 10))
     = Inl (NewBadRequestError ''Insufficient stock for product ID: 1'')
   \<and> GetStatusCode (NewBadRequestError ''Insufficient stock for product ID: 1'') = 400
   \<and> (case tx (orderRepository_Create no_faults 7 scenario_db (scenario_order 10)) of
         TxLeftOpen w \<Rightarrow> length (orders w) = 1 \<and> length (order_items w) = 1
                           \<and> map_option p_Stock (products w 1) = Some (- 5)
       | _ \<Rightarrow> False)
   \<and> returned (orderRepository_Create (\<lambda>s. s = At 0 DecrementStock) 7 scenario_db (scenario_order 10))
     = Inl (NewInternalError sql_driver_error)
   \<and> (case tx (orderRepository_Create (\<lambda>s. s = At 0 DecrementStock) 7 scenario_db (scenario_order 10)) of
         TxRolledBack w \<Rightarrow> length (orders w) = 1 \<and> length (order_items w) = 1
                           \<and> map_option p_Stock (products w 1) = Some 5
       | _ \<Rightarrow> False)"
  by (simp add: model_defs scenario_defs)

section \<open>Adding an item to an existing order\<close>

lemma AddOrderItem_no_faults:
  "orderRepository_AddOrderItem no_faults now d item =
     (if oi_OrderID item \<notin> set (map or_id (orders d)) then
        \<lparr>store = d, tx = TxLeftOpen d,
         returned = Inl (NewNotFoundError ''Order'' (oi_OrderID item))\<rparr>
      else case products d (oi_ProductID item) of
        None \<Rightarrow>
          \<lparr>store = d, tx = TxRolledBack d,
           returned = Inl (NewNotFoundError ''Product'' (oi_ProductID item))\<rparr>
      | Some p \<Rightarrow>
          if p_Stock p < oi_Quantity item then
            \<lparr>store = d, tx = TxLeftOpen d,
             returned = Inl (NewBadRequestError ''Insufficient stock'')\<rparr>
          else
            \<lparr>store = d\<lparr>order_items := order_items d
                          @ [row_of_item (item\<lparr>oi_CreatedAt := now, oi_UpdatedAt := now,
                                                oi_ID := next_item_id d\<rparr>)],
                        next_item_id := next_item_id d + 1,
                        products := (products d)(oi_ProductID item \<mapsto>
                           p\<lparr>p_Stock := p_Stock p - oi_Quantity item, p_UpdatedAt := now\<rparr>),
                        orders := map (\<lambda>r. if or_id r = oi_OrderID item
                                       then r\<lparr>or_total_amount := or_total_amount r
                                                 + oi_Price item * real_of_int (oi_Quantity item),
                                               or_updated_at := now\<rparr>
                                       else r) (orders d)\<rparr>,
             tx = TxCommitted,
             returned = Inr (item\<lparr>oi_CreatedAt := now, oi_UpdatedAt := now,
                                  oi_ID := next_item_id d\<rparr>)\<rparr>)"
  by (simp add: orderRepository_AddOrderItem_def orderRepository_AddOrderItem_body_def
        deferred_rollback_def return_fresh_def return_internal_def commit_tx_def
        update_product_def no_faults_def Let_def split: option.splits)

lemma exit_simps:
  "commit_ok (return_internal e w) = False"
  "ret (return_internal e w) = Inl (NewInternalError e)"
  "err_var (return_internal e w) = Some e"
  "work (return_internal e w) = w"
  "commit_ok (return_fresh e w) = False"
  "ret (return_fresh e w) = Inl e"
  "err_var (return_fresh e w) = None"
  "work (return_fresh e w) = w"
  "commit_ok (commit_tx f w v) = (\<not> f Commit)"
  "ret (commit_tx f w v) = (if f Commit then Inl (NewInternalError sql_driver_error) else Inr v)"
  "err_var (commit_tx f w v) = (if f Commit then Some sql_driver_error else None)"
  "work (commit_tx f w v) = w"
  by (simp_all add: return_internal_def return_fresh_def commit_tx_def)

lemma deferred_rollback_simps:
  "returned (deferred_rollback d x) = ret x"
  "store (deferred_rollback d x) = (if commit_ok x then work x else d)"
  "tx (deferred_rollback d x) =
     (if commit_ok x then TxCommitted
      else if err_var x \<noteq> None then TxRolledBack (work x) else TxLeftOpen (work x))"
  by (simp_all add: deferred_rollback_def)

lemma AddOrderItem_body_commit_ok:
  "commit_ok (orderRepository_AddOrderItem_body f now d item) \<Longrightarrow>
     orderRepository_AddOrderItem_body f now d item
       = orderRepository_AddOrderItem_body no_faults now d item"
  unfolding orderRepository_AddOrderItem_body_def Let_def no_faults_def
  by (simp add: exit_simps commit_tx_def split: if_splits option.splits)

lemma AddOrderItem_body_ret_Inr:
  "ret (orderRepository_AddOrderItem_body f now d item) = Inr v \<Longrightarrow>
     commit_ok (orderRepository_AddOrderItem_body f now d item)"
  unfolding orderRepository_AddOrderItem_body_def Let_def
  by (auto simp add: exit_simps split: if_splits option.splits)

lemma AddOrderItem_failure_unchanged:
  assumes "returned (orderRepository_AddOrderItem f now d item) = Inl e"
  shows "store (orderRepository_AddOrderItem f now d item) = d"
proof (cases "f BeginTx")
  case True
  then show ?thesis by (simp add: orderRepository_AddOrderItem_def begin_failed_def)
next
  case False
  with assms have "ret (orderRepository_AddOrderItem_body f now d item) = Inl e"
    by (simp add: orderRepository_AddOrderItem_def deferred_rollback_simps)
  moreover have "commit_ok (orderRepository_AddOrderItem_body f now d item) \<Longrightarrow>
     \<exists>v. ret (orderRepository_AddOrderItem_body f now d item) = Inr v"
    unfolding orderRepository_AddOrderItem_body_def Let_def
    by (auto simp add: exit_simps split: if_splits option.splits)
  ultimately have "\<not> commit_ok (orderRepository_AddOrderItem_body f now d item)"
    by auto
  with False show ?thesis
    by (simp add: orderRepository_AddOrderItem_def deferred_rollback_simps)
qed

lemma AddOrderItem_success_fault_free:
  assumes "returned (orderRepository_AddOrderItem f now d item) = Inr v"
  shows "orderRepository_AddOrderItem f now d item
           = orderRepository_AddOrderItem no_faults now d item"
proof -
  have nb: "\<not> f BeginTx"
    using assms by (auto simp: orderRepository_AddOrderItem_def begin_failed_def)
  with assms have "ret (orderRepository_AddOrderItem_body f now d item) = Inr v"
    by (simp add: orderRepository_AddOrderItem_def deferred_rollback_simps)
  then have "commit_ok (orderRepository_AddOrderItem_body f now d item)"
    by (rule AddOrderItem_body_ret_Inr)
  then have "orderRepository_AddOrderItem_body f now d item
       = orderRepository_AddOrderItem_body no_faults now d item"
    by (rule AddOrderItem_body_commit_ok)
  with nb show ?thesis
    by (simp add: orderRepository_AddOrderItem_def no_faults_def)
qed

text \<open>
  Claim C3. With a database that executes every statement,
  \<^verbatim>\<open>orderRepository.AddOrderItem\<close> checks in this order: it fails with NotFound for
  the order when the order does not exist; for an existing order it fails with NotFound
  for the product when the product does not exist; for an existing order and product it
  fails with the bad-request error ``Insufficient stock'' when the stock is below the
  quantity; otherwise it commits one transaction that appends the item row, lowers the
  stock of the product by the quantity and raises the total of the order by the
  caller-supplied price times the quantity. All-or-nothing, under any fault oracle: a
  failing call leaves the committed database as it was, and a successful call is the
  fault-free call, with all three writes.
\<close>

theorem C3_add_order_item:
  "(oi_OrderID item \<notin> set (map or_id (orders d)) \<longrightarrow>
      returned (orderRepository_AddOrderItem no_faults now d item)
        = Inl (NewNotFoundError ''Order'' (oi_OrderID item))
      \<and> store (orderRepository_AddOrderItem no_faults now d item) = d)
 \<and> (oi_OrderID item \<in> set (map or_id (orders d))
      \<and> products d (oi_ProductID item) = None \<longrightarrow>
      returned (orderRepository_AddOrderItem no_faults now d item)
        = Inl (NewNotFoundError ''Product'' (oi_ProductID item))
      \<and> store (orderRepository_AddOrderItem no_faults now d item) = d)
 \<and> (oi_OrderID item \<in> set (map or_id (orders d))
      \<and> products d (oi_ProductID item) = Some p
      \<and> p_Stock p < oi_Quantity item \<longrightarrow>
      returned (orderRepository_AddOrderItem no_faults now d item)
        = Inl (NewBadRequestError ''Insufficient stock'')
      \<and> store (orderRepository_AddOrderItem no_faults now d item) = d)
 \<and> (oi_OrderID item \<in> set (map or_id (orders d))
      \<and> products d (oi_ProductID item) = Some p
      \<and> oi_Quantity item \<le> p_Stock p \<longrightarrow>
      returned (orderRepository_AddOrderItem no_faults now d item)
        = Inr (item\<lparr>oi_CreatedAt := now, oi_UpdatedAt := now, oi_ID := next_item_id d\<rparr>)
      \<and> tx (orderRepository_AddOrderItem no_faults now d item) = TxCommitted
      \<and> order_items (store (orderRepository_AddOrderItem no_faults now d item))
          = order_items d
            @ [row_of_item (item\<lparr>oi_CreatedAt := now, oi_UpdatedAt := now,
                                  oi_ID := next_item_id d\<rparr>)]
      \<and> products (store (orderRepository_AddOrderItem no_faults now d item))
          = (products d)(oi_ProductID item \<mapsto>
               p\<lparr>p_Stock := p_Stock p - oi_Quantity item, p_UpdatedAt := now\<rparr>)
      \<and> orders (store (orderRepository_AddOrderItem no_faults now d item))
          = map (\<lambda>r. if or_id r = oi_OrderID item
                      then r\<lparr>or_total_amount := or_total_amount r
                                + oi_Price item * real_of_int (oi_Quantity item),
                              or_updated_at := now\<rparr>
                      else r) (orders d)
      \<and> shipping_infos (store (orderRepository_AddOrderItem no_faults now d item))
          = shipping_infos d
      \<and> users (store (orderRepository_AddOrderItem no_faults now d item)) = users d)
 \<and> (\<forall>f e. returned (orderRepository_AddOrderItem f now d item) = Inl e \<longrightarrow>
        store (orderRepository_AddOrderItem f now d item) = d)
 \<and> (\<forall>f v. returned (orderRepository_AddOrderItem f now d item) = Inr v \<longrightarrow>
        orderRepository_AddOrderItem f now d item
          = orderRepository_AddOrderItem no_faults now d item)"
proof (intro conjI impI allI)
  fix f e
  assume "returned (orderRepository_AddOrderItem f now d item) = Inl e"
  then show "store (orderRepository_AddOrderItem f now d item) = d"
    by (rule AddOrderItem_failure_unchanged)
next
  fix f v
  assume "returned (orderRepository_AddOrderItem f now d item) = Inr v"
  then show "orderRepository_AddOrderItem f now d item
               = orderRepository_AddOrderItem no_faults now d item"
    by (rule AddOrderItem_success_fault_free)
qed (simp_all add: AddOrderItem_no_faults)


theorem C3_add_order_item_witness:
  "returned (orderRepository_AddOrderItem no_faults 9 scenario_db_ordered (scenario_item 7 1 2 4))
     = Inl (NewNotFoundError ''Order'' 7)
 \<and> returned (orderRepository_AddOrderItem no_faults 9 scenario_db_ordered (scenario_item 1 9 2 4))
     = Inl (NewNotFoundError ''Product'' 9)
 \<and> returned (orderRepository_AddOrderItem no_faults 9 scenario_db_ordered (scenario_item 1 1 6 4))
     = Inl (NewBadRequestError ''Insufficient stock'')
 \<and> map or_total_amount
       (orders (store (orderRepository_AddOrderItem no_faults 9 scenario_db_ordered
                         (scenario_item 1 1 2 4)))) = [8]
 \<and> map_option p_Stock
       (products (store (orderRepository_AddOrderItem no_faults 9 scenario_db_ordered
                           (scenario_item 1 1 2 4))) 1) = Some 3
 \<and> length (order_items (store (orderRepository_AddOrderItem no_faults 9 scenario_db_ordered
                                  (scenario_item 1 1 2 4)))) = 1"
proof -
  note t = C3_add_order_item[where d = scenario_db_ordered and now = 9 and p = scenario_product]
  have a: "returned (orderRepository_AddOrderItem no_faults 9 scenario_db_ordered
                       (scenario_item 7 1 2 4)) = Inl (NewNotFoundError ''Order'' 7)"
    using t[where item = "scenario_item 7 1 2 4", THEN conjunct1]
    by (simp add: scenario2_defs scenario_defs)
  have b: "returned (orderRepository_AddOrderItem no_faults 9 scenario_db_ordered
                       (scenario_item 1 9 2 4)) = Inl (NewNotFoundError ''Product'' 9)"
    using t[where item = "scenario_item 1 9 2 4", THEN conjunct2, THEN conjunct1]
    by (simp add: scenario2_defs scenario_defs)
  have c: "returned (orderRepository_AddOrderItem no_faults 9 scenario_db_ordered
                       (scenario_item 1 1 6 4)) = Inl (NewBadRequestError ''Insufficient stock'')"
    using t[where item = "scenario_item 1 1 6 4", THEN conjunct2, THEN conjunct2, THEN conjunct1]
    by (simp add: scenario2_defs scenario_defs)
  have d: "map or_total_amount
       (orders (store (orderRepository_AddOrderItem no_faults 9 scenario_db_ordered
                         (scenario_item 1 1 2 4)))) = [8]
     \<and> map_option p_Stock
       (products (store (orderRepository_AddOrderItem no_faults 9 scenario_db_ordered
                           (scenario_item 1 1 2 4))) 1) = Some 3
     \<and> length (order_items (store (orderRepository_AddOrderItem no_faults 9 scenario_db_ordered
                                  (scenario_item 1 1 2 4)))) = 1"
    using t[where item = "scenario_item 1 1 2 4", THEN conjunct2, THEN conjunct2,
            THEN conjunct2, THEN conjunct1]
    by (simp add: scenario2_defs scenario_defs)
  from a b c d show ?thesis by simp
qed

lemma map_or_id_retotal:
  "map or_id (map (\<lambda>r. if P r then r\<lparr>or_total_amount := g r, or_updated_at := n\<rparr> else r) rs)
     = map or_id rs"
  by (induction rs) auto

text \<open>
  Claim C8. Adding an item is not idempotent. When a call succeeds and a second call with
  the same order, product, quantity and price succeeds on the database the first one
  left, the stock of the product has gone down by the quantity twice, the total of the
  order has gone up by price times quantity twice, two item rows with consecutive ids
  have been appended, and the database after the second call differs from the database
  after the first.
\<close>

theorem C8_add_item_twice:
  assumes first: "returned (orderRepository_AddOrderItem no_faults now d item) = Inr i1"
      and second: "returned (orderRepository_AddOrderItem no_faults now2
                               (store (orderRepository_AddOrderItem no_faults now d item)) item2)
                     = Inr i2"
      and same: "oi_OrderID item2 = oi_OrderID item" "oi_ProductID item2 = oi_ProductID item"
                "oi_Quantity item2 = oi_Quantity item" "oi_Price item2 = oi_Price item"
  shows "(\<exists>p. products d (oi_ProductID item) = Some p
            \<and> products (store (orderRepository_AddOrderItem no_faults now2
                                 (store (orderRepository_AddOrderItem no_faults now d item)) item2))
                 (oi_ProductID item)
                = Some (p\<lparr>p_Stock := p_Stock p - oi_Quantity item - oi_Quantity item,
                          p_UpdatedAt := now2\<rparr>))
       \<and> map or_total_amount
            (orders (store (orderRepository_AddOrderItem no_faults now2
                              (store (orderRepository_AddOrderItem no_faults now d item)) item2)))
          = map (\<lambda>r. if or_id r = oi_OrderID item
                      then or_total_amount r
                             + oi_Price item * real_of_int (oi_Quantity item)
                             + oi_Price item * real_of_int (oi_Quantity item)
                      else or_total_amount r) (orders d)
       \<and> order_items (store (orderRepository_AddOrderItem no_faults now2
                               (store (orderRepository_AddOrderItem no_faults now d item)) item2))
          = order_items d @ [row_of_item i1, row_of_item i2]
       \<and> oi_ID i2 = oi_ID i1 + 1
       \<and> store (orderRepository_AddOrderItem no_faults now2
                  (store (orderRepository_AddOrderItem no_faults now d item)) item2)
          \<noteq> store (orderRepository_AddOrderItem no_faults now d item)"
proof -
  let ?oid = "oi_OrderID item" and ?pid = "oi_ProductID item" and ?q = "oi_Quantity item"
  let ?a = "oi_Price item * real_of_int (oi_Quantity item)"
  from first have o: "?oid \<in> set (map or_id (orders d))"
    by (simp add: AddOrderItem_no_faults split: if_splits)
  from first o obtain p where p: "products d ?pid = Some p" "\<not> p_Stock p < ?q"
    by (auto simp: AddOrderItem_no_faults split: option.splits if_splits)
  let ?i1 = "item\<lparr>oi_CreatedAt := now, oi_UpdatedAt := now, oi_ID := next_item_id d\<rparr>"
  let ?d1 = "d\<lparr>order_items := order_items d @ [row_of_item ?i1],
               next_item_id := next_item_id d + 1,
               products := (products d)(?pid \<mapsto> p\<lparr>p_Stock := p_Stock p - ?q, p_UpdatedAt := now\<rparr>),
               orders := map (\<lambda>r. if or_id r = ?oid
                                    then r\<lparr>or_total_amount := or_total_amount r + ?a,
                                            or_updated_at := now\<rparr>
                                    else r) (orders d)\<rparr>"
  have s1: "store (orderRepository_AddOrderItem no_faults now d item) = ?d1"
    using o p by (simp add: AddOrderItem_no_faults)
  have i1: "i1 = ?i1"
    using first o p by (simp add: AddOrderItem_no_faults)
  have o1: "oi_OrderID item2 \<in> set (map or_id (orders ?d1))"
  proof -
    have "orders ?d1 = map (\<lambda>r. if or_id r = ?oid
                                    then r\<lparr>or_total_amount := or_total_amount r + ?a,
                                            or_updated_at := now\<rparr>
                                    else r) (orders d)"
      by simp
    then have "map or_id (orders ?d1) = map or_id (orders d)"
      by (simp only: map_or_id_retotal)
    with o same(1) show ?thesis by simp
  qed
  have p1: "products ?d1 (oi_ProductID item2)
              = Some (p\<lparr>p_Stock := p_Stock p - ?q, p_UpdatedAt := now\<rparr>)"
    using same(2) by simp
  from second have q1: "\<not> p_Stock p - ?q < oi_Quantity item2"
    unfolding s1 using o1 p1
    by (simp add: AddOrderItem_no_faults split: if_splits)
  let ?i2 = "item2\<lparr>oi_CreatedAt := now2, oi_UpdatedAt := now2, oi_ID := next_item_id ?d1\<rparr>"
  have r2: "orderRepository_AddOrderItem no_faults now2 ?d1 item2 =
      \<lparr>store = ?d1\<lparr>order_items := order_items ?d1 @ [row_of_item ?i2],
                   next_item_id := next_item_id ?d1 + 1,
                   products := (products ?d1)(oi_ProductID item2 \<mapsto>
                       (p\<lparr>p_Stock := p_Stock p - ?q, p_UpdatedAt := now\<rparr>)
                         \<lparr>p_Stock := p_Stock p - ?q - oi_Quantity item2, p_UpdatedAt := now2\<rparr>),
                   orders := map (\<lambda>r. if or_id r = oi_OrderID item2
                                    then r\<lparr>or_total_amount := or_total_amount r
                                              + oi_Price item2 * real_of_int (oi_Quantity item2),
                                            or_updated_at := now2\<rparr>
                                    else r) (orders ?d1)\<rparr>,
       tx = TxCommitted, returned = Inr ?i2\<rparr>"
    using o1 p1 q1 by (subst AddOrderItem_no_faults) simp
  have i2: "i2 = ?i2"
    using second unfolding s1 r2 by simp
  have stock: "\<exists>p. products d ?pid = Some p
            \<and> products (store (orderRepository_AddOrderItem no_faults now2 ?d1 item2)) ?pid
                = Some (p\<lparr>p_Stock := p_Stock p - ?q - ?q, p_UpdatedAt := now2\<rparr>)"
    unfolding r2 using p(1) same by simp
  have total: "map or_total_amount
            (orders (store (orderRepository_AddOrderItem no_faults now2 ?d1 item2)))
          = map (\<lambda>r. if or_id r = ?oid then or_total_amount r + ?a + ?a
                      else or_total_amount r) (orders d)"
    unfolding r2 using same by (simp add: comp_def if_distrib cong: if_cong)
  have rows: "order_items (store (orderRepository_AddOrderItem no_faults now2 ?d1 item2))
          = order_items d @ [row_of_item i1, row_of_item i2]"
    unfolding r2 i1 i2 by simp
  have ids: "oi_ID i2 = oi_ID i1 + 1"
    unfolding i1 i2 by simp
  have "length (order_items (store (orderRepository_AddOrderItem no_faults now2 ?d1 item2)))
          \<noteq> length (order_items ?d1)"
    unfolding r2 by simp
  then have differ: "store (orderRepository_AddOrderItem no_faults now2 ?d1 item2) \<noteq> ?d1"
    by metis
  show ?thesis
    unfolding s1 using stock total rows ids differ by (intro conjI)
qed


theorem C8_add_item_twice_witness:
  "map_option p_Stock
     (products (store (orderRepository_AddOrderItem no_faults 10
                         (store (orderRepository_AddOrderItem no_faults 9 scenario_db_ordered
                                   (scenario_item 1 1 2 4)))
                         (scenario_item 1 1 2 4))) 1) = Some 1
 \<and> map or_total_amount
     (orders (store (orderRepository_AddOrderItem no_faults 10
                       (store (orderRepository_AddOrderItem no_faults 9 scenario_db_ordered
                                 (scenario_item 1 1 2 4)))
                       (scenario_item 1 1 2 4)))) = [16]
 \<and> length
     (order_items (store (orderRepository_AddOrderItem no_faults 10
                            (store (orderRepository_AddOrderItem no_faults 9 scenario_db_ordered
                                      (scenario_item 1 1 2 4)))
                            (scenario_item 1 1 2 4)))) = 2"
proof -
  let ?item = "scenario_item 1 1 2 4"
  let ?i1 = "?item\<lparr>oi_CreatedAt := 9, oi_UpdatedAt := 9, oi_ID := 1\<rparr>"
  let ?i2 = "?item\<lparr>oi_CreatedAt := 10, oi_UpdatedAt := 10, oi_ID := 2\<rparr>"
  have h1: "returned (orderRepository_AddOrderItem no_faults 9 scenario_db_ordered ?item) = Inr ?i1"
    by (simp add: AddOrderItem_no_faults scenario2_defs scenario_defs)
  have h2: "returned (orderRepository_AddOrderItem no_faults 10
                        (store (orderRepository_AddOrderItem no_faults 9 scenario_db_ordered ?item))
                        ?item) = Inr ?i2"
    by (simp add: AddOrderItem_no_faults scenario2_defs scenario_defs)
  note t = C8_add_item_twice[OF h1 h2 refl refl refl refl]
  have a: "map_option p_Stock
     (products (store (orderRepository_AddOrderItem no_faults 10
                         (store (orderRepository_AddOrderItem no_faults 9 scenario_db_ordered ?item))
                         ?item)) 1) = Some 1"
    using t[THEN conjunct1] by (auto simp add: scenario2_defs scenario_defs)
  have b: "map or_total_amount
     (orders (store (orderRepository_AddOrderItem no_faults 10
                       (store (orderRepository_AddOrderItem no_faults 9 scenario_db_ordered ?item))
                       ?item))) = [16]"
    using t[THEN conjunct2, THEN conjunct1] by (simp add: scenario2_defs scenario_defs)
  have c: "length
     (order_items (store (orderRepository_AddOrderItem no_faults 10
                            (store (orderRepository_AddOrderItem no_faults 9 scenario_db_ordered ?item))
                            ?item))) = 2"
    using t[THEN conjunct2, THEN conjunct2, THEN conjunct1]
    by (simp add: scenario2_defs scenario_defs)
  from a b c show ?thesis by simp
qed

section \<open>Deleting an order\<close>

lemma Delete_no_faults:
  "orderRepository_Delete no_faults d ident =
     (if length (filter (\<lambda>r. or_id r = ident) (orders d)) = 0 then
        \<lparr>store = d,
         tx = TxLeftOpen
                (d\<lparr>shipping_infos := filter (\<lambda>s. si_OrderID s \<noteq> ident) (shipping_infos d),
                   order_items := filter (\<lambda>r. ir_order_id r \<noteq> ident) (order_items d),
                   orders := filter (\<lambda>r. or_id r \<noteq> ident) (orders d)\<rparr>),
         returned = Inl (NewNotFoundError ''Order'' ident)\<rparr>
      else
        \<lparr>store = d\<lparr>shipping_infos := filter (\<lambda>s. si_OrderID s \<noteq> ident) (shipping_infos d),
                    order_items := filter (\<lambda>r. ir_order_id r \<noteq> ident) (order_items d),
                    orders := filter (\<lambda>r. or_id r \<noteq> ident) (orders d)\<rparr>,
         tx = TxCommitted, returned = Inr ()\<rparr>)"
  by (simp add: orderRepository_Delete_def orderRepository_Delete_body_def
        deferred_rollback_def return_fresh_def commit_tx_def no_faults_def Let_def)

lemma Delete_NotFound_iff:
  "(returned (orderRepository_Delete f d ident) = Inl (NewNotFoundError ''Order'' ident))
     = (\<not> f BeginTx \<and> \<not> f DeleteShipping \<and> \<not> f DeleteItems \<and> \<not> f DeleteOrder
        \<and> \<not> f RowsAffected
        \<and> length (filter (\<lambda>r. or_id r = ident) (orders d)) = 0)"
  by (simp add: orderRepository_Delete_def orderRepository_Delete_body_def begin_failed_def
        deferred_rollback_simps exit_simps Let_def NewNotFoundError_def NewInternalError_def)

lemma Delete_classified:
  "returned (orderRepository_Delete f d ident) = Inl e \<Longrightarrow>
     errors_Is e ErrNotFound = (e = NewNotFoundError ''Order'' ident)"
  by (auto simp add: orderRepository_Delete_def orderRepository_Delete_body_def begin_failed_def
        deferred_rollback_simps exit_simps Let_def NewNotFoundError_def NewInternalError_def
        split: if_splits)

lemma Delete_store:
  "store (orderRepository_Delete f d ident) = d
   \<or> store (orderRepository_Delete f d ident)
       = d\<lparr>shipping_infos := filter (\<lambda>s. si_OrderID s \<noteq> ident) (shipping_infos d),
           order_items := filter (\<lambda>r. ir_order_id r \<noteq> ident) (order_items d),
           orders := filter (\<lambda>r. or_id r \<noteq> ident) (orders d)\<rparr>"
  by (simp add: orderRepository_Delete_def orderRepository_Delete_body_def begin_failed_def
        deferred_rollback_simps exit_simps Let_def)

lemma Delete_products:
  "products (store (orderRepository_Delete f d ident)) = products d"
  using Delete_store[of f d ident] by auto

lemma Delete_order_of_writes:
  "\<not> f BeginTx \<Longrightarrow> \<not> f DeleteShipping \<Longrightarrow> f DeleteItems \<Longrightarrow>
     tx (orderRepository_Delete f d ident)
       = TxRolledBack (d\<lparr>shipping_infos := filter (\<lambda>s. si_OrderID s \<noteq> ident) (shipping_infos d)\<rparr>)"
  "\<not> f BeginTx \<Longrightarrow> \<not> f DeleteShipping \<Longrightarrow> \<not> f DeleteItems \<Longrightarrow> f DeleteOrder \<Longrightarrow>
     tx (orderRepository_Delete f d ident)
       = TxRolledBack (d\<lparr>shipping_infos := filter (\<lambda>s. si_OrderID s \<noteq> ident) (shipping_infos d),
                          order_items := filter (\<lambda>r. ir_order_id r \<noteq> ident) (order_items d)\<rparr>)"
  by (simp_all add: orderRepository_Delete_def orderRepository_Delete_body_def
        deferred_rollback_simps exit_simps Let_def)

lemma Delete_twice:
  "returned (orderRepository_Delete no_faults
               (store (orderRepository_Delete no_faults d ident)) ident)
     = Inl (NewNotFoundError ''Order'' ident)"
  by (simp add: Delete_no_faults)

text \<open>
  Claim C7. \<^verbatim>\<open>orderRepository.Delete\<close> deletes the shipping row, then the item rows,
  then the order row, and commits them together: for an existing order and a database
  that executes every statement the three tables lose exactly the rows of that order.
  The order of the writes shows in what a failure discards: a database error at the
  second statement rolls back a transaction that has deleted the shipping row only, one
  at the third statement a transaction that has deleted the shipping row and the items.
  Under any fault oracle the call returns NotFound exactly when it reaches the count of
  the rows affected by the last delete and that count is zero, so deleting an order a
  second time returns NotFound; the committed database is either as before or has lost
  all three; and no product row changes. (On the NotFound return \<^verbatim>\<open>err\<close> is nil
  and the transaction is left open; nothing of it is committed.)
\<close>

theorem C7_delete_order:
  "(ident \<in> set (map or_id (orders d)) \<longrightarrow>
      orderRepository_Delete no_faults d ident
        = \<lparr>store = d\<lparr>shipping_infos := filter (\<lambda>s. si_OrderID s \<noteq> ident) (shipping_infos d),
                      order_items := filter (\<lambda>r. ir_order_id r \<noteq> ident) (order_items d),
                      orders := filter (\<lambda>r. or_id r \<noteq> ident) (orders d)\<rparr>,
           tx = TxCommitted, returned = Inr ()\<rparr>)
 \<and> (\<forall>f. (returned (orderRepository_Delete f d ident) = Inl (NewNotFoundError ''Order'' ident))
          = (\<not> f BeginTx \<and> \<not> f DeleteShipping \<and> \<not> f DeleteItems \<and> \<not> f DeleteOrder
             \<and> \<not> f RowsAffected
             \<and> length (filter (\<lambda>r. or_id r = ident) (orders d)) = 0))
 \<and> (\<forall>f e. returned (orderRepository_Delete f d ident) = Inl e \<longrightarrow>
        errors_Is e ErrNotFound = (e = NewNotFoundError ''Order'' ident))
 \<and> (\<forall>f. \<not> f BeginTx \<and> \<not> f DeleteShipping \<and> f DeleteItems \<longrightarrow>
        tx (orderRepository_Delete f d ident)
          = TxRolledBack
              (d\<lparr>shipping_infos := filter (\<lambda>s. si_OrderID s \<noteq> ident) (shipping_infos d)\<rparr>))
 \<and> (\<forall>f. \<not> f BeginTx \<and> \<not> f DeleteShipping \<and> \<not> f DeleteItems \<and> f DeleteOrder \<longrightarrow>
        tx (orderRepository_Delete f d ident)
          = TxRolledBack
              (d\<lparr>shipping_infos := filter (\<lambda>s. si_OrderID s \<noteq> ident) (shipping_infos d),
                 order_items := filter (\<lambda>r. ir_order_id r \<noteq> ident) (order_items d)\<rparr>))
 \<and> returned (orderRepository_Delete no_faults
               (store (orderRepository_Delete no_faults d ident)) ident)
     = Inl (NewNotFoundError ''Order'' ident)
 \<and> (\<forall>f. products (store (orderRepository_Delete f d ident)) = products d)
 \<and> (\<forall>f. store (orderRepository_Delete f d ident) = d
        \<or> store (orderRepository_Delete f d ident)
            = d\<lparr>shipping_infos := filter (\<lambda>s. si_OrderID s \<noteq> ident) (shipping_infos d),
                order_items := filter (\<lambda>r. ir_order_id r \<noteq> ident) (order_items d),
                orders := filter (\<lambda>r. or_id r \<noteq> ident) (orders d)\<rparr>)"
proof (intro conjI allI impI)
  assume "ident \<in> set (map or_id (orders d))"
  then have "filter (\<lambda>r. or_id r = ident) (orders d) \<noteq> []"
    by (auto simp: filter_empty_conv)
  then show "orderRepository_Delete no_faults d ident
        = \<lparr>store = d\<lparr>shipping_infos := filter (\<lambda>s. si_OrderID s \<noteq> ident) (shipping_infos d),
                      order_items := filter (\<lambda>r. ir_order_id r \<noteq> ident) (order_items d),
                      orders := filter (\<lambda>r. or_id r \<noteq> ident) (orders d)\<rparr>,
           tx = TxCommitted, returned = Inr ()\<rparr>"
    by (simp add: Delete_no_faults)
next
  fix f
  show "(returned (orderRepository_Delete f d ident) = Inl (NewNotFoundError ''Order'' ident))
          = (\<not> f BeginTx \<and> \<not> f DeleteShipping \<and> \<not> f DeleteItems \<and> \<not> f DeleteOrder
             \<and> \<not> f RowsAffected
             \<and> length (filter (\<lambda>r. or_id r = ident) (orders d)) = 0)"
    by (rule Delete_NotFound_iff)
next
  fix f e
  assume "returned (orderRepository_Delete f d ident) = Inl e"
  then show "errors_Is e ErrNotFound = (e = NewNotFoundError ''Order'' ident)"
    by (rule Delete_classified)
next
  fix f
  assume "\<not> f BeginTx \<and> \<not> f DeleteShipping \<and> f DeleteItems"
  then show "tx (orderRepository_Delete f d ident)
          = TxRolledBack
              (d\<lparr>shipping_infos := filter (\<lambda>s. si_OrderID s \<noteq> ident) (shipping_infos d)\<rparr>)"
    by (simp add: Delete_order_of_writes(1))
next
  fix f
  assume "\<not> f BeginTx \<and> \<not> f DeleteShipping \<and> \<not> f DeleteItems \<and> f DeleteOrder"
  then show "tx (orderRepository_Delete f d ident)
          = TxRolledBack
              (d\<lparr>shipping_infos := filter (\<lambda>s. si_OrderID s \<noteq> ident) (shipping_infos d),
                 order_items := filter (\<lambda>r. ir_order_id r \<noteq> ident) (order_items d)\<rparr>)"
    by (simp add: Delete_order_of_writes(2))
next
  show "returned (orderRepository_Delete no_faults
               (store (orderRepository_Delete no_faults d ident)) ident)
     = Inl (NewNotFoundError ''Order'' ident)"
    by (rule Delete_twice)
next
  fix f
  show "products (store (orderRepository_Delete f d ident)) = products d"
    by (rule Delete_products)
next
  fix f
  show "store (orderRepository_Delete f d ident) = d
        \<or> store (orderRepository_Delete f d ident)
            = d\<lparr>shipping_infos := filter (\<lambda>s. si_OrderID s \<noteq> ident) (shipping_infos d),
                order_items := filter (\<lambda>r. ir_order_id r \<noteq> ident) (order_items d),
                orders := filter (\<lambda>r. or_id r \<noteq> ident) (orders d)\<rparr>"
    by (rule Delete_store)
qed

lemma scenario_db_placed_tables:
  "map or_id (orders scenario_db_placed) = [1]"
  "map ir_order_id (order_items scenario_db_placed) = [1]"
  "map si_OrderID (shipping_infos scenario_db_placed) = [1]"
  "map_option p_Stock (products scenario_db_placed 1) = Some 2"
  by (simp_all add: scenario_db_placed_def model_defs scenario_defs)

theorem C7_delete_order_witness:
  "returned (orderRepository_Delete no_faults scenario_db_placed 1) = Inr ()
 \<and> tx (orderRepository_Delete no_faults scenario_db_placed 1) = TxCommitted
 \<and> orders (store (orderRepository_Delete no_faults scenario_db_placed 1)) = []
 \<and> order_items (store (orderRepository_Delete no_faults scenario_db_placed 1)) = []
 \<and> shipping_infos (store (orderRepository_Delete no_faults scenario_db_placed 1)) = []
 \<and> map_option p_Stock
       (products (store (orderRepository_Delete no_faults scenario_db_placed 1)) 1) = Some 2
 \<and> returned (orderRepository_Delete no_faults
               (store (orderRepository_Delete no_faults scenario_db_placed 1)) 1)
     = Inl (NewNotFoundError ''Order'' 1)
 \<and> tx (orderRepository_Delete (\<lambda>s. s = DeleteOrder) scenario_db_placed 1)
     = TxRolledBack (scenario_db_placed\<lparr>shipping_infos := [], order_items := []\<rparr>)"
proof -
  note t = C7_delete_order[of 1 scenario_db_placed]
  have ord: "(1::int) \<in> set (map or_id (orders scenario_db_placed))"
    by (simp add: scenario_db_placed_tables)
  have sh: "filter (\<lambda>s. si_OrderID s \<noteq> 1) (shipping_infos scenario_db_placed) = []"
    using scenario_db_placed_tables(3) by (auto simp: filter_empty_conv map_eq_Cons_conv)
  have it: "filter (\<lambda>r. ir_order_id r \<noteq> 1) (order_items scenario_db_placed) = []"
    using scenario_db_placed_tables(2) by (auto simp: filter_empty_conv map_eq_Cons_conv)
  have od: "filter (\<lambda>r. or_id r \<noteq> 1) (orders scenario_db_placed) = []"
    using scenario_db_placed_tables(1) by (auto simp: filter_empty_conv map_eq_Cons_conv)
  from t[THEN conjunct1] ord
  have a: "orderRepository_Delete no_faults scenario_db_placed 1
        = \<lparr>store = scenario_db_placed\<lparr>shipping_infos := [], order_items := [], orders := []\<rparr>,
           tx = TxCommitted, returned = Inr ()\<rparr>"
    by (simp add: sh it od)
  have b: "returned (orderRepository_Delete no_faults
               (store (orderRepository_Delete no_faults scenario_db_placed 1)) 1)
     = Inl (NewNotFoundError ''Order'' 1)"
    using t by simp
  have c: "tx (orderRepository_Delete (\<lambda>s. s = DeleteOrder) scenario_db_placed 1)
     = TxRolledBack (scenario_db_placed\<lparr>shipping_infos := [], order_items := []\<rparr>)"
    using t[THEN conjunct2, THEN conjunct2, THEN conjunct2, THEN conjunct2, THEN conjunct1,
            THEN spec, of "\<lambda>s. s = DeleteOrder"]
    by (simp add: sh it)
  show ?thesis
    using b c scenario_db_placed_tables(4) by (simp add: a)
qed

end
